theory Spec2Isabelle
  imports Complex_Main "HOL-Library.AList" "HOL-Library.Log_Nat"
begin

section \<open>Numbers\<close>

text \<open>
  The engine of the Solo RPG Companion (App.js inside the bundled source file) keeps one
  normalised session object, wraps it in a bounded undo/redo history and rebuilds it from
  untrusted JSON on load.  This theory embeds that engine.

  A JavaScript number is a double: \<open>Finite q\<close> stands for the double whose value is the
  rational \<open>q\<close>, and the two zeros are one value (the engine never divides, so it cannot tell
  them apart).  \<open>roundToDouble\<close> is the rounding of an exact result to the nearest double,
  ties to the even significand: 53 bits of significand, exponents from \<open>-1022\<close> to \<open>1023\<close>,
  subnormals below, infinity from \<open>2^1024 - 2^970\<close> on.
\<close>

datatype number = Finite rat | PosInfinity | NegInfinity | NaN

definition pow2 :: "int \<Rightarrow> rat" where
  "pow2 e = (if 0 \<le> e then 2 ^ nat e else 1 / 2 ^ nat (- e))"

text \<open>The exponent \<open>e\<close> of a positive rational \<open>a\<close>: \<open>2^e \<le> a < 2^(e+1)\<close>.\<close>

definition floorLog2 :: "rat \<Rightarrow> int" where
  "floorLog2 a =
     (let k = bitlen (fst (quotient_of a)) - bitlen (snd (quotient_of a))
      in if pow2 k \<le> a then k else k - 1)"

definition roundHalfEven :: "rat \<Rightarrow> int" where
  "roundHalfEven x =
     (let f = \<lfloor>x\<rfloor>; d = x - of_int f
      in if d < 1 / 2 then f else if 1 / 2 < d then f + 1 else if even f then f else f + 1)"

definition roundToDouble :: "rat \<Rightarrow> number" where
  "roundToDouble x =
     (if x = 0 then Finite 0
      else
        let a = \<bar>x\<bar>;
            e = max (floorLog2 a) (- 1022);
            ulp = pow2 (e - 52);
            r = of_int (roundHalfEven (a / ulp)) * ulp
        in if pow2 1024 \<le> r then (if x < 0 then NegInfinity else PosInfinity)
           else Finite (if x < 0 then - r else r))"

text \<open>\<open>x - y\<close>\<close>

fun jsMinus :: "number \<Rightarrow> number \<Rightarrow> number" where
  "jsMinus (Finite a) (Finite b) = roundToDouble (a - b)"
| "jsMinus NaN y = NaN"
| "jsMinus x NaN = NaN"
| "jsMinus PosInfinity PosInfinity = NaN"
| "jsMinus NegInfinity NegInfinity = NaN"
| "jsMinus PosInfinity y = PosInfinity"
| "jsMinus NegInfinity y = NegInfinity"
| "jsMinus (Finite a) PosInfinity = NegInfinity"
| "jsMinus (Finite a) NegInfinity = PosInfinity"

text \<open>\<open>x !== y\<close> on numbers: \<open>NaN\<close> differs from every number, itself included.\<close>

definition strictNotEqual :: "number \<Rightarrow> number \<Rightarrow> bool" where
  "strictNotEqual x y = (x = NaN \<or> y = NaN \<or> x \<noteq> y)"

text \<open>\<open>x > 0\<close>\<close>

fun greaterThanZero :: "number \<Rightarrow> bool" where
  "greaterThanZero (Finite q) = (0 < q)"
| "greaterThanZero PosInfinity = True"
| "greaterThanZero x = False"

text \<open>\<open>Number.isFinite(x)\<close>: the numbers that JSON text can carry.\<close>

fun isFinite :: "number \<Rightarrow> bool" where
  "isFinite (Finite q) = True"
| "isFinite x = False"

section \<open>Values read from JSON\<close>

text \<open>
  A parsed JSON value, and any JavaScript value that the engine stores unchecked.  Strings
  are byte lists, the UTF-8 encoding of the JavaScript string.  An object is the list of its
  own entries in insertion order.  JavaScript's \<open>undefined\<close> (a missing property) is \<open>None\<close>
  of \<open>json option\<close>.
\<close>

datatype json =
    JNull
  | JBool bool
  | JNum number
  | JStr string
  | JArr "json list"
  | JObj "(string \<times> json) list"

text \<open>
  Truthiness: \<open>null\<close>, \<open>false\<close>, \<open>0\<close>, \<open>NaN\<close> and \<open>""\<close> are falsy; \<open>undefined\<close> is falsy too.
\<close>

fun truthy :: "json \<Rightarrow> bool" where
  "truthy JNull = False"
| "truthy (JBool b) = b"
| "truthy (JNum n) = (n \<noteq> Finite 0 \<and> n \<noteq> NaN)"
| "truthy (JStr s) = (s \<noteq> [])"
| "truthy (JArr xs) = True"
| "truthy (JObj kvs) = True"

text \<open>The truthiness of a property that may be missing.\<close>

definition truthyOpt :: "json option \<Rightarrow> bool" where
  "truthyOpt v = (case v of Some j \<Rightarrow> truthy j | None \<Rightarrow> False)"

text \<open>\<open>v || d\<close>\<close>

definition orElse :: "json option \<Rightarrow> json \<Rightarrow> json" where
  "orElse v d = (case v of Some j \<Rightarrow> if truthy j then j else d | None \<Rightarrow> d)"

text \<open>\<open>typeof v === 'object'\<close>: true of \<open>null\<close>, arrays and objects.\<close>

fun typeofObject :: "json \<Rightarrow> bool" where
  "typeofObject JNull = True"
| "typeofObject (JArr xs) = True"
| "typeofObject (JObj kvs) = True"
| "typeofObject v = False"

text \<open>\<open>typeof v === 'object' && v !== null\<close>\<close>

definition isNonNullObject :: "json \<Rightarrow> bool" where
  "isNonNullObject v = (typeofObject v \<and> v \<noteq> JNull)"

text \<open>
  \<open>v.k\<close> for a value \<open>v\<close> that is neither \<open>null\<close> nor \<open>undefined\<close>, and a key \<open>k\<close> that is a
  field name of the data model (none of them is an array index, \<open>length\<close> or another
  built-in property whose value the validator would accept).  A key given twice in the
  JSON text has its last value.
\<close>

fun get :: "string \<Rightarrow> json \<Rightarrow> json option" where
  "get k (JObj kvs) = map_of (rev kvs) k"
| "get k v = None"

text \<open>\<open>v?.k\<close>\<close>

definition getOpt :: "string \<Rightarrow> json option \<Rightarrow> json option" where
  "getOpt k v = (case v of None \<Rightarrow> None | Some JNull \<Rightarrow> None | Some j \<Rightarrow> get k j)"

text \<open>The decimal digits of a natural number and of an integer.\<close>

fun showNat :: "nat \<Rightarrow> string" where
  "showNat n =
     (if n < 10 then [''0123456789'' ! n]
      else showNat (n div 10) @ [''0123456789'' ! (n mod 10)])"

declare showNat.simps [simp del]

definition showInt :: "int \<Rightarrow> string" where
  "showInt i = (if i < 0 then CHR ''-'' # showNat (nat (- i)) else showNat (nat i))"

text \<open>\<open>xs.join(sep)\<close> on strings.\<close>

fun joinWith :: "string \<Rightarrow> string list \<Rightarrow> string" where
  "joinWith sep [] = []"
| "joinWith sep [x] = x"
| "joinWith sep (x # y # ys) = x @ sep @ joinWith sep (y # ys)"

text \<open>
  \<open>s.trim()\<close> strips the white space and the line terminators of ECMAScript from both ends:
  tab, line feed, vertical tab, form feed, carriage return, space, U+00A0, U+1680, U+2000
  to U+200A, U+2028, U+2029, U+202F, U+205F, U+3000 and U+FEFF, here in UTF-8.  In
  well-formed UTF-8 each of these byte sequences at either end of a string is that
  character.
\<close>

definition whiteSpace :: "string list" where
  "whiteSpace =
     [[CHR 0x09], [CHR 0x0A], [CHR 0x0B], [CHR 0x0C], [CHR 0x0D], [CHR 0x20],
      [CHR 0xC2, CHR 0xA0],
      [CHR 0xE1, CHR 0x9A, CHR 0x80],
      [CHR 0xE2, CHR 0x80, CHR 0x80], [CHR 0xE2, CHR 0x80, CHR 0x81],
      [CHR 0xE2, CHR 0x80, CHR 0x82], [CHR 0xE2, CHR 0x80, CHR 0x83],
      [CHR 0xE2, CHR 0x80, CHR 0x84], [CHR 0xE2, CHR 0x80, CHR 0x85],
      [CHR 0xE2, CHR 0x80, CHR 0x86], [CHR 0xE2, CHR 0x80, CHR 0x87],
      [CHR 0xE2, CHR 0x80, CHR 0x88], [CHR 0xE2, CHR 0x80, CHR 0x89],
      [CHR 0xE2, CHR 0x80, CHR 0x8A],
      [CHR 0xE2, CHR 0x80, CHR 0xA8], [CHR 0xE2, CHR 0x80, CHR 0xA9],
      [CHR 0xE2, CHR 0x80, CHR 0xAF],
      [CHR 0xE2, CHR 0x81, CHR 0x9F],
      [CHR 0xE3, CHR 0x80, CHR 0x80],
      [CHR 0xEF, CHR 0xBB, CHR 0xBF]]"

text \<open>Dropping from the front of \<open>s\<close> every leading occurrence of one of the sequences \<open>ps\<close>.\<close>

function stripLeading :: "string list \<Rightarrow> string \<Rightarrow> string" where
  "stripLeading ps s =
     (case find (\<lambda>p. p \<noteq> [] \<and> take (length p) s = p) ps of
        None \<Rightarrow> s
      | Some p \<Rightarrow> stripLeading ps (drop (length p) s))"
  by pat_completeness auto

termination
proof (relation "measure (\<lambda>(ps, s). length s)")
  show "wf (measure (\<lambda>(ps, s). length s))" by simp
next
  fix ps :: "string list" and s p :: string
  assume "find (\<lambda>p. p \<noteq> [] \<and> take (length p) s = p) ps = Some p"
  then have "p \<noteq> []" and "take (length p) s = p"
    by (auto simp: find_Some_iff)
  then have "s \<noteq> []" by auto
  with \<open>p \<noteq> []\<close> show "((ps, drop (length p) s), (ps, s)) \<in> measure (\<lambda>(ps, s). length s)"
    by simp
qed

declare stripLeading.simps [simp del]

definition trim :: "string \<Rightarrow> string" where
  "trim s = rev (stripLeading (map rev whiteSpace) (rev (stripLeading whiteSpace s)))"

text \<open>
  The own entries an object spread \<open>{...v}\<close> copies: those of an object, the indexed
  elements of an array, the indexed characters of a string (bytes here), nothing otherwise.
  \<open>spread base add\<close> is \<open>{...base, ...add}\<close> on entry lists: a key already present keeps
  its place and takes the new value, a new key goes last.  (JavaScript moves integer-like
  keys to the front; the model keeps insertion order.)
\<close>

definition spread :: "(string \<times> json) list \<Rightarrow> (string \<times> json) list \<Rightarrow> (string \<times> json) list" where
  "spread base add = foldl (\<lambda>acc kv. AList.update (fst kv) (snd kv) acc) base add"

fun ownEntries :: "json \<Rightarrow> (string \<times> json) list" where
  "ownEntries (JObj kvs) = spread [] kvs"
| "ownEntries (JArr xs) = zip (map showNat [0..<length xs]) xs"
| "ownEntries (JStr s) = zip (map showNat [0..<length s]) (map (\<lambda>c. JStr [c]) s)"
| "ownEntries v = []"

section \<open>The session state\<close>

text \<open>
  The fields of each record are those of the object literals in the source, prefixed by the
  record's initials.  A field has type \<open>string\<close> or \<open>number\<close> where every writer of the field
  enforces that type, and type \<open>json\<close> where some writer stores a value unchecked (the
  package loader copies template names and labels as they are).
\<close>

record LogEntry =
  le_id :: string
  le_content :: string
  le_type :: string
  le_colorKey :: string
  le_timestamp :: string

record CustomField =
  cf_id :: string
  cf_fieldName :: json
  cf_fieldValue :: string

record CharacterSheet =
  cs_name :: string
  cs_image :: "string option"
  cs_stats :: string
  cs_statsLabel :: json
  cs_customFields :: "CustomField list"

record TableEntry =
  te_id :: json
  te_value :: json
  te_rollValue :: "json option"

record RandomTable =
  rt_id :: json
  rt_name :: json
  rt_diceCommand :: json
  rt_entries :: "TableEntry list"

record TrackerHistoryEntry =
  th_id :: string
  th_timestamp :: string
  th_change :: number
  th_previousValue :: number
  th_newValue :: number
  th_reason :: string

record ResourceTracker =
  tr_id :: string
  tr_name :: json
  tr_value :: number
  tr_history :: "TrackerHistoryEntry list"

record DiceRoll =
  dr_id :: string
  dr_command :: string
  dr_individualRolls :: "number list"
  dr_total :: number
  dr_timestamp :: string

record CustomFieldTemplate =
  cft_id :: json
  cft_label :: json
  cft_type :: string

record RulebookSection =
  rs_id :: string
  rs_title :: string
  rs_content :: string

record ResourceTrackerTemplate =
  rtt_id :: json
  rtt_name :: json
  rtt_initialValue :: number

text \<open>
  A game-data package as the validator builds it.  \<open>gp_manifest\<close> is the spread of the
  default manifest and the loaded one.  \<open>cst_other\<close> holds the entries of the template other
  than \<open>baseStats\<close> and \<open>customFieldTemplates\<close> (so \<open>statsLabel\<close> is read from it), and
  \<open>gp_other\<close> the entries of the package other than the five keys the validator rebuilds:
  what the object spreads \<open>...pkg.characterSheetTemplate\<close> and \<open>...pkg\<close> carry over.
\<close>

record CharacterSheetTemplate =
  cst_baseStats :: "json list"
  cst_customFieldTemplates :: "CustomFieldTemplate list"
  cst_other :: "(string \<times> json) list"

record GameDataPackage =
  gp_manifest :: "(string \<times> json) list"
  gp_characterSheetTemplate :: CharacterSheetTemplate
  gp_rulebookSections :: "RulebookSection list"
  gp_randomTables :: "RandomTable list"
  gp_resourceTrackerTemplates :: "ResourceTrackerTemplate list"
  gp_other :: "(string \<times> json) list"

record SessionState =
  sessionId :: string
  playLogEntries :: "LogEntry list"
  playLogTitle :: string
  characterSheet :: CharacterSheet
  tables :: "RandomTable list"
  resourceTrackers :: "ResourceTracker list"
  diceRollHistory :: "DiceRoll list"
  theme :: string
  loadedGameDataPackage :: "GameDataPackage option"
  gameDataPackageLoadId :: "string option"

section \<open>Collaborators and defaults\<close>

text \<open>
  The browser globals the engine reads.  \<open>uuid\<close> and \<open>clock\<close> give the results of
  \<open>crypto.randomUUID()\<close> and \<open>new Date().toISOString()\<close>, indexed by a counter of the calls
  made so far (the \<open>nat\<close> that the effectful functions below take and return);
  \<open>validDate s\<close> is \<open>!isNaN(new Date(s).getTime())\<close>; \<open>prefersDark\<close> is the media query
  behind \<open>initialDefaultTheme\<close>; \<open>parseFloat\<close> is the global function of that name;
  \<open>formatNumber q\<close> is the text of \<open>String(x)\<close> for a finite double \<open>x\<close> of value \<open>q\<close> that is
  not an integer below \<open>2^53\<close> in magnitude (the shortest decimal that reads back as \<open>x\<close>).
\<close>

record Env =
  uuid :: "nat \<Rightarrow> string"
  clock :: "nat \<Rightarrow> string"
  validDate :: "string \<Rightarrow> bool"
  prefersDark :: bool
  parseFloat :: "string \<Rightarrow> number"
  formatNumber :: "rat \<Rightarrow> string"

definition randomUUID :: "Env \<Rightarrow> nat \<Rightarrow> string \<times> nat" where
  "randomUUID E w = (uuid E w, Suc w)"

definition nowISO :: "Env \<Rightarrow> nat \<Rightarrow> string \<times> nat" where
  "nowISO E w = (clock E w, Suc w)"

text \<open>
  \<open>String(x)\<close> for a number: an integer below \<open>2^53\<close> in magnitude is written by its decimal
  digits.
\<close>

definition numberToString :: "Env \<Rightarrow> number \<Rightarrow> string" where
  "numberToString E x =
     (case x of
        Finite q \<Rightarrow>
          if q = of_int \<lfloor>q\<rfloor> \<and> \<bar>q\<bar> < 2 ^ 53 then showInt \<lfloor>q\<rfloor> else formatNumber E q
      | PosInfinity \<Rightarrow> ''Infinity''
      | NegInfinity \<Rightarrow> ''-Infinity''
      | NaN \<Rightarrow> ''NaN'')"

text \<open>
  \<open>String(v)\<close>, as a template literal applies it: an array joins its elements with commas
  (\<open>null\<close> elements as empty strings), an object is \<open>[object Object]\<close>.
\<close>

fun jsString :: "Env \<Rightarrow> json \<Rightarrow> string" where
  "jsString E JNull = ''null''"
| "jsString E (JBool b) = (if b then ''true'' else ''false'')"
| "jsString E (JNum n) = numberToString E n"
| "jsString E (JStr s) = s"
| "jsString E (JArr xs) = joinWith '','' (map (\<lambda>x. if x = JNull then [] else jsString E x) xs)"
| "jsString E (JObj kvs) = ''[object Object]''"

text \<open>The Japanese default labels and message parts of the source, as UTF-8 bytes.\<close>

definition initialPlayLogTitle :: string where
  "initialPlayLogTitle =
     [CHR 0xE3, CHR 0x83, CHR 0x97, CHR 0xE3, CHR 0x83, CHR 0xAC, CHR 0xE3, CHR 0x82,
      CHR 0xA4, CHR 0xE3, CHR 0x83, CHR 0xAD, CHR 0xE3, CHR 0x82, CHR 0xB0]"

definition defaultCharacterName :: string where
  "defaultCharacterName =
     [CHR 0xE3, CHR 0x82, CHR 0xAD, CHR 0xE3, CHR 0x83, CHR 0xA3, CHR 0xE3, CHR 0x83,
      CHR 0xA9, CHR 0xE3, CHR 0x82, CHR 0xAF, CHR 0xE3, CHR 0x82, CHR 0xBF, CHR 0xE3,
      CHR 0x83, CHR 0xBC, CHR 0xE5, CHR 0x90, CHR 0x8D]"

definition defaultStatsLabel :: string where
  "defaultStatsLabel =
     [CHR 0xE8, CHR 0x83, CHR 0xBD, CHR 0xE5, CHR 0x8A, CHR 0x9B, CHR 0xE5, CHR 0x80,
      CHR 0xA4, CHR 0xE3, CHR 0x83, CHR 0xBB, CHR 0xE8, CHR 0xA9, CHR 0xB3, CHR 0xE7,
      CHR 0xB4, CHR 0xB0]"

definition unnamedTable :: string where
  "unnamedTable =
     [CHR 0xE7, CHR 0x84, CHR 0xA1, CHR 0xE5, CHR 0x90, CHR 0x8D, CHR 0xE3, CHR 0x83,
      CHR 0x86, CHR 0xE3, CHR 0x83, CHR 0xBC, CHR 0xE3, CHR 0x83, CHR 0x96, CHR 0xE3,
      CHR 0x83, CHR 0xAB]"

definition unnamedResource :: string where
  "unnamedResource =
     [CHR 0xE7, CHR 0x84, CHR 0xA1, CHR 0xE5, CHR 0x90, CHR 0x8D, CHR 0xE3, CHR 0x83,
      CHR 0xAA, CHR 0xE3, CHR 0x82, CHR 0xBD, CHR 0xE3, CHR 0x83, CHR 0xBC, CHR 0xE3,
      CHR 0x82, CHR 0xB9]"

definition untitledField :: string where
  "untitledField =
     [CHR 0xE7, CHR 0x84, CHR 0xA1, CHR 0xE9, CHR 0xA1, CHR 0x8C, CHR 0xE3, CHR 0x81,
      CHR 0xAE, CHR 0xE9, CHR 0xA0, CHR 0x85, CHR 0xE7, CHR 0x9B, CHR 0xAE]"

definition untitledSection :: string where
  "untitledSection =
     [CHR 0xE7, CHR 0x84, CHR 0xA1, CHR 0xE9, CHR 0xA1, CHR 0x8C, CHR 0xE3, CHR 0x81,
      CHR 0xAE, CHR 0xE3, CHR 0x82, CHR 0xBB, CHR 0xE3, CHR 0x82, CHR 0xAF, CHR 0xE3,
      CHR 0x82, CHR 0xB7, CHR 0xE3, CHR 0x83, CHR 0xA7, CHR 0xE3, CHR 0x83, CHR 0xB3]"

definition untitledTable :: string where
  "untitledTable =
     [CHR 0xE7, CHR 0x84, CHR 0xA1, CHR 0xE9, CHR 0xA1, CHR 0x8C, CHR 0xE3, CHR 0x81,
      CHR 0xAE, CHR 0xE3, CHR 0x83, CHR 0x86, CHR 0xE3, CHR 0x83, CHR 0xBC, CHR 0xE3,
      CHR 0x83, CHR 0x96, CHR 0xE3, CHR 0x83, CHR 0xAB]"

definition untitledResource :: string where
  "untitledResource =
     [CHR 0xE7, CHR 0x84, CHR 0xA1, CHR 0xE9, CHR 0xA1, CHR 0x8C, CHR 0xE3, CHR 0x81,
      CHR 0xAE, CHR 0xE3, CHR 0x83, CHR 0xAA, CHR 0xE3, CHR 0x82, CHR 0xBD, CHR 0xE3,
      CHR 0x83, CHR 0xBC, CHR 0xE3, CHR 0x82, CHR 0xB9]"

definition untitledGame :: string where
  "untitledGame =
     [CHR 0xE7, CHR 0x84, CHR 0xA1, CHR 0xE9, CHR 0xA1, CHR 0x8C, CHR 0xE3, CHR 0x81,
      CHR 0xAE, CHR 0xE3, CHR 0x82, CHR 0xB2, CHR 0xE3, CHR 0x83, CHR 0xBC, CHR 0xE3,
      CHR 0x83, CHR 0xA0]"

definition unknownAuthor :: string where
  "unknownAuthor =
     [CHR 0xE4, CHR 0xB8, CHR 0x8D, CHR 0xE6, CHR 0x98, CHR 0x8E, CHR 0xE3, CHR 0x81,
      CHR 0xAA, CHR 0xE4, CHR 0xBD, CHR 0x9C, CHR 0xE8, CHR 0x80, CHR 0x85]"

definition unnamedTracker :: string where
  "unnamedTracker =
     [CHR 0xE5, CHR 0x90, CHR 0x8D, CHR 0xE7, CHR 0xA7, CHR 0xB0, CHR 0xE6, CHR 0x9C,
      CHR 0xAA, CHR 0xE8, CHR 0xA8, CHR 0xAD, CHR 0xE5, CHR 0xAE, CHR 0x9A, CHR 0xE3,
      CHR 0x83, CHR 0x88, CHR 0xE3, CHR 0x83, CHR 0xA9, CHR 0xE3, CHR 0x83, CHR 0x83,
      CHR 0xE3, CHR 0x82, CHR 0xAB, CHR 0xE3, CHR 0x83, CHR 0xBC]"

definition msgResourceOpen :: string where
  "msgResourceOpen =
     [CHR 0xE3, CHR 0x83, CHR 0xAA, CHR 0xE3, CHR 0x82, CHR 0xBD, CHR 0xE3, CHR 0x83,
      CHR 0xBC, CHR 0xE3, CHR 0x82, CHR 0xB9, CHR 0xE3, CHR 0x80, CHR 0x8C]"

definition msgChanged :: string where
  "msgChanged =
     [CHR 0xE3, CHR 0x80, CHR 0x8D, CHR 0xE5, CHR 0xA4, CHR 0x89, CHR 0xE6, CHR 0x9B,
      CHR 0xB4, CHR 0x3A, CHR 0x20]"

definition msgArrow :: string where
  "msgArrow =
     [CHR 0x20, CHR 0xE2, CHR 0x86, CHR 0x92, CHR 0x20]"

definition msgReason :: string where
  "msgReason =
     [CHR 0x20, CHR 0xE7, CHR 0x90, CHR 0x86, CHR 0xE7, CHR 0x94, CHR 0xB1, CHR 0x3A,
      CHR 0x20]"

definition msgConfirmed :: string where
  "msgConfirmed =
     [CHR 0xE3, CHR 0x80, CHR 0x8D, CHR 0xE7, CHR 0xA2, CHR 0xBA, CHR 0xE8, CHR 0xAA,
      CHR 0x8D, CHR 0x3A, CHR 0x20]"

definition msgDiceEmpty :: string where
  "msgDiceEmpty =
     [CHR 0xE3, CHR 0x83, CHR 0x80, CHR 0xE3, CHR 0x82, CHR 0xA4, CHR 0xE3, CHR 0x82,
      CHR 0xB9, CHR 0xE3, CHR 0x83, CHR 0xAD, CHR 0xE3, CHR 0x83, CHR 0xBC, CHR 0xE3,
      CHR 0x83, CHR 0xAB, CHR 0xE8, CHR 0xA9, CHR 0xA6, CHR 0xE8, CHR 0xA1, CHR 0x8C,
      CHR 0x3A, CHR 0x20, CHR 0xE3, CHR 0x82, CHR 0xB3, CHR 0xE3, CHR 0x83, CHR 0x9E,
      CHR 0xE3, CHR 0x83, CHR 0xB3, CHR 0xE3, CHR 0x83, CHR 0x89, CHR 0xE3, CHR 0x81,
      CHR 0x8C, CHR 0xE7, CHR 0xA9, CHR 0xBA, CHR 0xE3, CHR 0x81, CHR 0xA7, CHR 0xE3,
      CHR 0x81, CHR 0x99, CHR 0xE3, CHR 0x80, CHR 0x82]"

definition msgDiceError :: string where
  "msgDiceError =
     [CHR 0xE3, CHR 0x83, CHR 0x80, CHR 0xE3, CHR 0x82, CHR 0xA4, CHR 0xE3, CHR 0x82,
      CHR 0xB9, CHR 0xE3, CHR 0x83, CHR 0xAD, CHR 0xE3, CHR 0x83, CHR 0xBC, CHR 0xE3,
      CHR 0x83, CHR 0xAB, CHR 0xE3, CHR 0x82, CHR 0xA8, CHR 0xE3, CHR 0x83, CHR 0xA9,
      CHR 0xE3, CHR 0x83, CHR 0xBC, CHR 0x20, CHR 0x28]"

definition msgDiceRoll :: string where
  "msgDiceRoll =
     [CHR 0xE3, CHR 0x83, CHR 0x80, CHR 0xE3, CHR 0x82, CHR 0xA4, CHR 0xE3, CHR 0x82,
      CHR 0xB9, CHR 0xE3, CHR 0x83, CHR 0xAD, CHR 0xE3, CHR 0x83, CHR 0xBC, CHR 0xE3,
      CHR 0x83, CHR 0xAB, CHR 0x20, CHR 0x28]"

definition msgInvalidPackage :: string where
  "msgInvalidPackage =
     [CHR 0xE7, CHR 0x84, CHR 0xA1, CHR 0xE5, CHR 0x8A, CHR 0xB9, CHR 0xE3, CHR 0x81,
      CHR 0xAA, CHR 0xE3, CHR 0x82, CHR 0xB2, CHR 0xE3, CHR 0x83, CHR 0xBC, CHR 0xE3,
      CHR 0x83, CHR 0xA0, CHR 0xE3, CHR 0x83, CHR 0x87, CHR 0xE3, CHR 0x83, CHR 0xBC,
      CHR 0xE3, CHR 0x82, CHR 0xBF, CHR 0xE3, CHR 0x83, CHR 0x91, CHR 0xE3, CHR 0x83,
      CHR 0x83, CHR 0xE3, CHR 0x82, CHR 0xB1, CHR 0xE3, CHR 0x83, CHR 0xBC, CHR 0xE3,
      CHR 0x82, CHR 0xB8, CHR 0xE5, CHR 0xBD, CHR 0xA2, CHR 0xE5, CHR 0xBC, CHR 0x8F,
      CHR 0xE3, CHR 0x81, CHR 0xA7, CHR 0xE3, CHR 0x81, CHR 0x99, CHR 0xE3, CHR 0x80,
      CHR 0x82]"

definition initialCharacterSheetValues :: CharacterSheet where
  "initialCharacterSheetValues =
     \<lparr>cs_name = defaultCharacterName, cs_image = None, cs_stats = [],
      cs_statsLabel = JStr defaultStatsLabel, cs_customFields = []\<rparr>"

definition initialDefaultTheme :: "Env \<Rightarrow> string" where
  "initialDefaultTheme E = (if prefersDark E then ''dark'' else ''light'')"

definition getInitialSessionData :: "Env \<Rightarrow> nat \<Rightarrow> SessionState \<times> nat" where
  "getInitialSessionData E w =
     (let (newSessionId, w1) = randomUUID E w
      in (\<lparr>sessionId = newSessionId,
           playLogEntries = [],
           playLogTitle = initialPlayLogTitle,
           characterSheet = initialCharacterSheetValues,
           tables = [],
           resourceTrackers = [],
           diceRollHistory = [],
           theme = initialDefaultTheme E,
           loadedGameDataPackage = None,
           gameDataPackageLoadId = None\<rparr>, w1))"

text \<open>\<open>PREDEFINED_COLORS\<close> (its keys) and the theme options of the theme menu.\<close>

definition PREDEFINED_COLORS :: "string list" where
  "PREDEFINED_COLORS = [''default'', ''red'', ''blue'', ''green'', ''yellow'', ''purple'']"

definition themeOptions :: "string list" where
  "themeOptions = [''dark'', ''light'', ''earth'', ''pastel'']"

section \<open>The undo/redo history\<close>

text \<open>
  \<open>sessionHistory\<close> and \<open>currentSessionIndex\<close> are the two React state cells of \<open>App\<close>.
\<close>

record HistoryStore =
  sessionHistory :: "SessionState list"
  currentSessionIndex :: nat

definition MAX_HISTORY_SIZE :: nat where
  "MAX_HISTORY_SIZE = 10"

text \<open>\<open>xs[i]\<close>: \<open>undefined\<close> out of range.\<close>

definition nth_opt :: "'a list \<Rightarrow> nat \<Rightarrow> 'a option" where
  "nth_opt xs i = (if i < length xs then Some (xs ! i) else None)"

text \<open>\<open>const currentSessionData = sessionHistory[currentSessionIndex]\<close>\<close>

definition currentSessionData :: "HistoryStore \<Rightarrow> SessionState option" where
  "currentSessionData h = nth_opt (sessionHistory h) (currentSessionIndex h)"

text \<open>
  The argument of \<open>updateHistory\<close>: a function of the current snapshot, a function of no
  parameter (given by its result), or a ready-made state.  \<open>None\<close> is a \<open>null\<close> or
  \<open>undefined\<close> result.
\<close>

datatype sessionUpdater =
    UpdaterFn "SessionState option \<Rightarrow> SessionState option"
  | UpdaterFn0 "SessionState option"
  | StateObject "SessionState option"

text \<open>The three branches that compute \<open>newSessionState\<close> in \<open>updateHistory\<close>.\<close>

definition applyUpdater :: "sessionUpdater \<Rightarrow> SessionState option \<Rightarrow> SessionState option" where
  "applyUpdater sessionUpdaterFuncOrState currentActualSessionFromPrev =
     (case sessionUpdaterFuncOrState of
        UpdaterFn f \<Rightarrow> f currentActualSessionFromPrev
      | UpdaterFn0 r \<Rightarrow> r
      | StateObject s \<Rightarrow> s)"

text \<open>
  \<open>updateHistory\<close>: the commit.  The callback is rebuilt when \<open>currentSessionIndex\<close>
  changes and reads the index it captured at the last render, \<open>capturedIndex\<close>; the history
  it reads is the one React passes to the state updater.  A result that is missing or has a
  falsy (empty) \<open>sessionId\<close> aborts and leaves both cells as they were.
\<close>

definition updateHistoryAt :: "nat \<Rightarrow> sessionUpdater \<Rightarrow> HistoryStore \<Rightarrow> HistoryStore" where
  "updateHistoryAt capturedIndex sessionUpdaterFuncOrState h =
     (let prevHistory = sessionHistory h;
          currentActualSessionFromPrev = nth_opt prevHistory capturedIndex;
          newSessionState = applyUpdater sessionUpdaterFuncOrState currentActualSessionFromPrev
      in case newSessionState of
           None \<Rightarrow> h
         | Some ns \<Rightarrow>
             if sessionId ns = [] then h
             else
               let historyUpToCurrent = take (capturedIndex + 1) prevHistory;
                   updatedFullHistory = historyUpToCurrent @ [ns];
                   trimmed =
                     (if length updatedFullHistory > MAX_HISTORY_SIZE
                      then drop (length updatedFullHistory - MAX_HISTORY_SIZE) updatedFullHistory
                      else updatedFullHistory)
               in \<lparr>sessionHistory = trimmed, currentSessionIndex = length trimmed - 1\<rparr>)"

text \<open>A commit made after the last change of the index has been rendered.\<close>

definition updateHistory :: "sessionUpdater \<Rightarrow> HistoryStore \<Rightarrow> HistoryStore" where
  "updateHistory u h = updateHistoryAt (currentSessionIndex h) u h"

text \<open>\<open>handleUndo\<close>: \<open>Math.max(0, prevIndex - 1)\<close>.\<close>

definition handleUndo :: "HistoryStore \<Rightarrow> HistoryStore" where
  "handleUndo h =
     h\<lparr>currentSessionIndex := nat (max 0 (int (currentSessionIndex h) - 1))\<rparr>"

text \<open>
  \<open>handleRedo\<close>: \<open>Math.min(sessionHistory.length - 1, prevIndex + 1)\<close>.  On an empty history
  JavaScript would give \<open>-1\<close>; the history is never empty (\<open>reachable_inv\<close> below).
\<close>

definition handleRedo :: "HistoryStore \<Rightarrow> HistoryStore" where
  "handleRedo h =
     h\<lparr>currentSessionIndex :=
         nat (min (int (length (sessionHistory h)) - 1) (int (currentSessionIndex h) + 1))\<rparr>"

text \<open>
  \<open>setSessionHistory([s]); setCurrentSessionIndex(0)\<close>: the start of the application, a
  loaded session file and a reset.
\<close>

definition resetTo :: "SessionState \<Rightarrow> HistoryStore" where
  "resetTo s = \<lparr>sessionHistory = [s], currentSessionIndex = 0\<rparr>"

text \<open>The cursor points into the history.\<close>

definition store_inv :: "HistoryStore \<Rightarrow> bool" where
  "store_inv h = (currentSessionIndex h < length (sessionHistory h))"

text \<open>The stores the application can be in.\<close>

inductive reachable :: "HistoryStore \<Rightarrow> bool" where
  reach_reset: "reachable (resetTo s)"
| reach_commit: "reachable h \<Longrightarrow> i < length (sessionHistory h) \<Longrightarrow> reachable (updateHistoryAt i u h)"
| reach_undo: "reachable h \<Longrightarrow> reachable (handleUndo h)"
| reach_redo: "reachable h \<Longrightarrow> reachable (handleRedo h)"

text \<open>A domain mutator, a pure transform of the current snapshot, as a commit argument.\<close>

definition mutator :: "(SessionState \<Rightarrow> SessionState) \<Rightarrow> sessionUpdater" where
  "mutator f = UpdaterFn (map_option f)"

text \<open>Running a sequence of mutators, one commit each.\<close>

definition commits :: "(SessionState \<Rightarrow> SessionState) list \<Rightarrow> HistoryStore \<Rightarrow> HistoryStore" where
  "commits fs h = foldl (\<lambda>h f. updateHistory (mutator f) h) h fs"

text \<open>The snapshots a sequence of transforms goes through, the initial one first.\<close>

fun trace :: "SessionState \<Rightarrow> (SessionState \<Rightarrow> SessionState) list \<Rightarrow> SessionState list" where
  "trace s [] = [s]"
| "trace s (f # fs) = s # trace (f s) fs"

section \<open>Serialisation\<close>

text \<open>
  \<open>reparse v\<close> is \<open>JSON.parse(JSON.stringify(v))\<close>: \<open>JSON.stringify\<close> writes \<open>null\<close> for a number
  that is not finite, and everything else reads back as it was.  Two values have the same
  \<open>JSON.stringify\<close> text exactly when they have the same \<open>reparse\<close>.
\<close>

primrec reparse :: "json \<Rightarrow> json" where
  "reparse JNull = JNull"
| "reparse (JBool b) = JBool b"
| "reparse (JNum n) = (if isFinite n then JNum n else JNull)"
| "reparse (JStr s) = JStr s"
| "reparse (JArr xs) = JArr (map reparse xs)"
| "reparse (JObj kvs) = JObj (map (map_prod id reparse) kvs)"

text \<open>\<open>JSON.parse(JSON.stringify(randomTables))\<close> on the tables of a package.\<close>

definition jsonCopyEntry :: "TableEntry \<Rightarrow> TableEntry" where
  "jsonCopyEntry e =
     \<lparr>te_id = reparse (te_id e), te_value = reparse (te_value e),
      te_rollValue = map_option reparse (te_rollValue e)\<rparr>"

definition jsonCopyTable :: "RandomTable \<Rightarrow> RandomTable" where
  "jsonCopyTable t =
     \<lparr>rt_id = reparse (rt_id t), rt_name = reparse (rt_name t),
      rt_diceCommand = reparse (rt_diceCommand t),
      rt_entries = map jsonCopyEntry (rt_entries t)\<rparr>"






definition encTrackerHistoryEntry :: "TrackerHistoryEntry \<Rightarrow> json" where
  "encTrackerHistoryEntry h =
     JObj [(''id'', JStr (th_id h)), (''timestamp'', JStr (th_timestamp h)),
           (''change'', JNum (th_change h)), (''previousValue'', JNum (th_previousValue h)),
           (''newValue'', JNum (th_newValue h)), (''reason'', JStr (th_reason h))]"

definition encResourceTracker :: "ResourceTracker \<Rightarrow> json" where
  "encResourceTracker t =
     JObj [(''id'', JStr (tr_id t)), (''name'', tr_name t), (''value'', JNum (tr_value t)),
           (''history'', JArr (map encTrackerHistoryEntry (tr_history t)))]"









section \<open>Domain mutators\<close>

text \<open>
  The application state is the history store and the counter of the identifiers and clock
  readings drawn so far.  A mutator is the arrow function that the source passes to
  \<open>updateHistory\<close>: it maps the current snapshot and the counter to the next snapshot and
  the counter.  \<open>commitAt\<close> runs it through \<open>updateHistory\<close> with the captured index.  (On an
  \<open>undefined\<close> current snapshot the source's arrow functions raise a \<open>TypeError\<close>; the model
  aborts the commit instead.  The index is always in range, \<open>reachable_inv\<close>.)
\<close>

type_synonym app = "HistoryStore \<times> nat"

type_synonym effectfulMutator = "SessionState \<Rightarrow> nat \<Rightarrow> SessionState \<times> nat"

definition commitAt :: "nat \<Rightarrow> effectfulMutator \<Rightarrow> app \<Rightarrow> app" where
  "commitAt capturedIndex f a =
     (case a of (h, w) \<Rightarrow>
        (updateHistoryAt capturedIndex (mutator (\<lambda>s. fst (f s w))) h,
         (case nth_opt (sessionHistory h) capturedIndex of
            Some s \<Rightarrow> snd (f s w)
          | None \<Rightarrow> w)))"

text \<open>\<open>xs.map(f)\<close> for an \<open>f\<close> that draws identifiers or reads the clock.\<close>

fun mapW :: "('a \<Rightarrow> nat \<Rightarrow> 'b \<times> nat) \<Rightarrow> 'a list \<Rightarrow> nat \<Rightarrow> 'b list \<times> nat" where
  "mapW f [] w = ([], w)"
| "mapW f (x # xs) w =
     (let (y, w1) = f x w;
          (ys, w2) = mapW f xs w1
      in (y # ys, w2))"

text \<open>
  \<open>addPlayLogEntry(content, type, colorKey, updatesForSession)\<close>.  \<open>updatesForSession\<close> is
  \<open>None\<close> when it is \<open>null\<close> or has no \<open>resourceTrackers\<close>, else the tracker array it carries.
\<close>

definition addPlayLogEntry_updater ::
  "Env \<Rightarrow> string \<Rightarrow> string \<Rightarrow> string \<Rightarrow> ResourceTracker list option \<Rightarrow> effectfulMutator" where
  "addPlayLogEntry_updater E content type colorKey updatesForSession currentData w =
     (let basePlayLog = playLogEntries currentData;
          (newId, w1) = randomUUID E w;
          (now, w2) = nowISO E w1;
          newEntry = \<lparr>le_id = newId, le_content = content, le_type = type,
                      le_colorKey = colorKey, le_timestamp = now\<rparr>;
          newSessionData = currentData\<lparr>playLogEntries := basePlayLog @ [newEntry]\<rparr>
      in (case updatesForSession of
            None \<Rightarrow> newSessionData
          | Some trackers \<Rightarrow> newSessionData\<lparr>resourceTrackers := trackers\<rparr>,
          w2))"

definition addPlayLogEntry ::
  "Env \<Rightarrow> nat \<Rightarrow> string \<Rightarrow> string \<Rightarrow> string \<Rightarrow> ResourceTracker list option \<Rightarrow> app \<Rightarrow> app" where
  "addPlayLogEntry E capturedIndex content type colorKey updatesForSession =
     commitAt capturedIndex (addPlayLogEntry_updater E content type colorKey updatesForSession)"


definition setTheme_updater :: "string \<Rightarrow> SessionState \<Rightarrow> SessionState" where
  "setTheme_updater newTheme currentData = currentData\<lparr>theme := newTheme\<rparr>"





definition setResourceTrackers_updater ::
  "(ResourceTracker list \<Rightarrow> ResourceTracker list) \<Rightarrow> SessionState \<Rightarrow> SessionState" where
  "setResourceTrackers_updater newTrackersOrUpdater currentData =
     currentData\<lparr>resourceTrackers := newTrackersOrUpdater (resourceTrackers currentData)\<rparr>"

definition setResourceTrackers ::
  "nat \<Rightarrow> (ResourceTracker list \<Rightarrow> ResourceTracker list) \<Rightarrow> app \<Rightarrow> app" where
  "setResourceTrackers capturedIndex newTrackersOrUpdater =
     commitAt capturedIndex (\<lambda>s w. (setResourceTrackers_updater newTrackersOrUpdater s, w))"

definition setDiceRollHistory_updater ::
  "(DiceRoll list \<Rightarrow> DiceRoll list) \<Rightarrow> SessionState \<Rightarrow> SessionState" where
  "setDiceRollHistory_updater newHistoryOrUpdater currentData =
     currentData\<lparr>diceRollHistory := newHistoryOrUpdater (diceRollHistory currentData)\<rparr>"

definition setDiceRollHistory ::
  "nat \<Rightarrow> (DiceRoll list \<Rightarrow> DiceRoll list) \<Rightarrow> app \<Rightarrow> app" where
  "setDiceRollHistory capturedIndex newHistoryOrUpdater =
     commitAt capturedIndex (\<lambda>s w. (setDiceRollHistory_updater newHistoryOrUpdater s, w))"

subsection \<open>Dice rolls\<close>

text \<open>
  \<open>handleRollDice\<close> of the dice roller.  \<open>parseAndRollDice\<close>, the dice-expression evaluator, is
  a parameter: it gives an error message or the command, the rolls and their total.  Both
  commits of a successful roll are made by callbacks of one render, so both read the index
  captured there.
\<close>

definition pushRoll :: "DiceRoll \<Rightarrow> DiceRoll list \<Rightarrow> DiceRoll list" where
  "pushRoll newRoll prev = newRoll # take 19 prev"

definition handleRollDice ::
  "Env \<Rightarrow> (string \<Rightarrow> string + (string \<times> number list \<times> number)) \<Rightarrow> string \<Rightarrow> app \<Rightarrow> app" where
  "handleRollDice E parseAndRollDice diceCommand a =
     (let capturedIndex = currentSessionIndex (fst a)
      in if trim diceCommand = [] then
           addPlayLogEntry E capturedIndex msgDiceEmpty ''normal'' ''yellow'' None a
         else
           (case parseAndRollDice diceCommand of
              Inl err \<Rightarrow>
                addPlayLogEntry E capturedIndex
                  (msgDiceError @ diceCommand @ ''): '' @ err) ''normal'' ''red'' None a
            | Inr (command, individualRolls, rollTotal) \<Rightarrow>
                (case a of (h, w) \<Rightarrow>
                   let (newId, w1) = randomUUID E w;
                       (now, w2) = nowISO E w1;
                       newRoll = \<lparr>dr_id = newId, dr_command = command,
                                  dr_individualRolls = individualRolls, dr_total = rollTotal,
                                  dr_timestamp = now\<rparr>;
                       a1 = setDiceRollHistory capturedIndex (pushRoll newRoll) (h, w2)
                   in addPlayLogEntry E capturedIndex
                        (msgDiceRoll @ command @ ''): ''
                           @ joinWith '', '' (map (numberToString E) individualRolls)
                           @ '' = '' @ numberToString E rollTotal)
                        ''normal'' ''default'' None a1)))"

subsection \<open>Resource trackers\<close>

text \<open>
  \<open>handleReflectTrackerChange(id, newValueFromItem, reason)\<close> of the tracker panel;
  \<open>trackers\<close> is the tracker list of the snapshot on screen.  Its two commits are
  alternatives: the play-log entry that carries the new tracker list, or, when neither
  the value changed nor a reason was given, \<open>onSetTrackersProp\<close> (which is
  \<open>setResourceTrackers\<close>) if the \<open>JSON.stringify\<close> texts of the two tracker lists differ.
\<close>

definition reflectedTrackers ::
  "TrackerHistoryEntry \<Rightarrow> string \<Rightarrow> number \<Rightarrow> ResourceTracker list \<Rightarrow> ResourceTracker list" where
  "reflectedTrackers logEntryForInternalHistory id' newValue trackers =
     map (\<lambda>t. if tr_id t = id'
               then t\<lparr>tr_value := newValue,
                      tr_history := logEntryForInternalHistory # take 49 (tr_history t)\<rparr>
               else t) trackers"

text \<open>The \<open>logMessage\<close> of \<open>handleReflectTrackerChange\<close>, written when the value changed or a reason was given.\<close>

definition logMessage :: "Env \<Rightarrow> string \<Rightarrow> number \<Rightarrow> number \<Rightarrow> number \<Rightarrow> string \<Rightarrow> string" where
  "logMessage E trackerName previousValue newValue changeAmount trimmedReason =
     (let reasonPart = (if trimmedReason \<noteq> [] then msgReason @ trimmedReason else [])
      in if strictNotEqual newValue previousValue then
           msgResourceOpen @ trackerName @ msgChanged
             @ numberToString E previousValue
             @ msgArrow @ numberToString E newValue
             @ '' ('' @ (if greaterThanZero changeAmount then ''+'' else [])
             @ numberToString E changeAmount
             @ '')'' @ reasonPart
         else
           msgResourceOpen @ trackerName @ msgConfirmed
             @ numberToString E newValue @ reasonPart)"

definition handleReflectTrackerChange ::
  "Env \<Rightarrow> string \<Rightarrow> number \<Rightarrow> string \<Rightarrow> app \<Rightarrow> app" where
  "handleReflectTrackerChange E id' newValueFromItem reason a =
     (case a of (h, w) \<Rightarrow>
       (case currentSessionData h of
          None \<Rightarrow> a
        | Some cur \<Rightarrow>
           let trackers = resourceTrackers cur in
           (case find (\<lambda>t. tr_id t = id') trackers of
              None \<Rightarrow> a
            | Some currentTracker \<Rightarrow>
                let previousValue = tr_value currentTracker;
                    newValue = newValueFromItem;
                    changeAmount = jsMinus newValue previousValue;
                    trackerName = jsString E (orElse (Some (tr_name currentTracker)) (JStr unnamedTracker));
                    trimmedReason = trim reason;
                    (newId, w1) = randomUUID E w;
                    (now, w2) = nowISO E w1;
                    logEntryForInternalHistory =
                      \<lparr>th_id = newId, th_timestamp = now, th_change = changeAmount,
                       th_previousValue = previousValue, th_newValue = newValue,
                       th_reason = trimmedReason\<rparr>;
                    newTrackersArray = reflectedTrackers logEntryForInternalHistory id' newValue trackers;
                    valueActuallyChanged = strictNotEqual newValue previousValue;
                    reasonActuallyProvided = (trimmedReason \<noteq> [])
                in if valueActuallyChanged \<or> reasonActuallyProvided then
                     addPlayLogEntry E (currentSessionIndex h)
                       (logMessage E trackerName previousValue newValue changeAmount trimmedReason)
                       ''normal'' ''default'' (Some newTrackersArray) (h, w2)
                   else
                     let trackersReallyChanged =
                           (reparse (JArr (map encResourceTracker newTrackersArray))
                              \<noteq> reparse (JArr (map encResourceTracker trackers)))
                     in if trackersReallyChanged then
                          setResourceTrackers (currentSessionIndex h) (\<lambda>prev. newTrackersArray) (h, w2)
                        else (h, w2))))"

text \<open>
  \<open>handleReflect\<close> of one tracker row: \<open>tracker\<close> is the row's tracker, \<open>stagedValue\<close> and
  \<open>stagedReason\<close> the two input fields.  It calls \<open>handleReflectTrackerChange\<close> (its
  \<open>onReflectChange\<close>) only when the value changed or a reason was given.  A staged value
  that is not a number is replaced by the tracker's value (the source also alerts and
  resets the input field).
\<close>

definition handleReflect :: "Env \<Rightarrow> ResourceTracker \<Rightarrow> string \<Rightarrow> string \<Rightarrow> app \<Rightarrow> app" where
  "handleReflect E tracker stagedValue stagedReason a =
     (let trimmedReason = trim stagedReason;
          finalNumericValue =
            (if trim stagedValue = [] then tr_value tracker
             else (let parsed = parseFloat E stagedValue
                   in if parsed = NaN then tr_value tracker else parsed));
          valueActuallyChanged = strictNotEqual finalNumericValue (tr_value tracker);
          reasonActuallyProvided = (trimmedReason \<noteq> [])
      in if valueActuallyChanged \<or> reasonActuallyProvided
         then handleReflectTrackerChange E (tr_id tracker) finalNumericValue trimmedReason a
         else a)"

subsection \<open>Game-data packages\<close>

text \<open>
  \<open>setLoadedGameDataPackage(gameDataPkg, newLoadIdOverride)\<close>.  The package is one the
  validator built, so its \<open>characterSheetTemplate\<close> and its arrays are present and the
  source's tests for their presence succeed.  The tables are copied through
  \<open>JSON.parse(JSON.stringify(randomTables))\<close>.
\<close>

definition fieldFromTemplate :: "Env \<Rightarrow> CustomFieldTemplate \<Rightarrow> nat \<Rightarrow> CustomField \<times> nat" where
  "fieldFromTemplate E tmpl w =
     (let (newId, w1) = randomUUID E w
      in (\<lparr>cf_id = newId, cf_fieldName = cft_label tmpl,
           cf_fieldValue = (if cft_type tmpl = ''number'' then ''0'' else [])\<rparr>, w1))"

definition trackerFromTemplate :: "Env \<Rightarrow> ResourceTrackerTemplate \<Rightarrow> nat \<Rightarrow> ResourceTracker \<times> nat" where
  "trackerFromTemplate E tmpl w =
     (let (newId, w1) = randomUUID E w
      in (\<lparr>tr_id = newId, tr_name = rtt_name tmpl, tr_value = rtt_initialValue tmpl,
           tr_history = []\<rparr>, w1))"

text \<open>\<open>currentData.gameDataPackageLoadId || crypto.randomUUID()\<close>\<close>

definition loadIdOrFresh :: "Env \<Rightarrow> SessionState \<Rightarrow> nat \<Rightarrow> string \<times> nat" where
  "loadIdOrFresh E currentData w =
     (case gameDataPackageLoadId currentData of
        Some c \<Rightarrow> if c \<noteq> [] then (c, w) else randomUUID E w
      | None \<Rightarrow> randomUUID E w)"

definition setLoadedGameDataPackage_updater ::
  "Env \<Rightarrow> GameDataPackage option \<Rightarrow> string option \<Rightarrow> effectfulMutator" where
  "setLoadedGameDataPackage_updater E gameDataPkg newLoadIdOverride currentData w =
     (let updatedSheet = characterSheet currentData;
          updatedTrackers = resourceTrackers currentData;
          updatedTables = tables currentData
      in case gameDataPkg of
           Some pkg \<Rightarrow>
             let csTemplate = gp_characterSheetTemplate pkg;
                 statsLabel' = orElse (map_of (cst_other csTemplate) ''statsLabel'')
                                 (cs_statsLabel initialCharacterSheetValues);
                 (customFields', w1) =
                   (if cs_customFields updatedSheet = []
                    then mapW (fieldFromTemplate E) (cst_customFieldTemplates csTemplate) w
                    else (cs_customFields updatedSheet, w));
                 (trackers', w2) =
                   (if updatedTrackers = [] \<and> gp_resourceTrackerTemplates pkg \<noteq> []
                    then mapW (trackerFromTemplate E) (gp_resourceTrackerTemplates pkg) w1
                    else (updatedTrackers, w1));
                 tables' =
                   (if updatedTables = [] \<and> gp_randomTables pkg \<noteq> []
                    then map jsonCopyTable (gp_randomTables pkg)
                    else updatedTables);
                 (effectiveLoadId, w3) =
                   (case newLoadIdOverride of
                      Some l \<Rightarrow> if l \<noteq> [] then (l, w2) else loadIdOrFresh E currentData w2
                    | None \<Rightarrow> loadIdOrFresh E currentData w2)
             in (currentData\<lparr>loadedGameDataPackage := Some pkg,
                               gameDataPackageLoadId := Some effectiveLoadId,
                               characterSheet := updatedSheet\<lparr>cs_statsLabel := statsLabel',
                                                               cs_customFields := customFields'\<rparr>,
                               resourceTrackers := trackers',
                               tables := tables'\<rparr>, w3)
         | None \<Rightarrow>
             (currentData\<lparr>loadedGameDataPackage := None,
                           gameDataPackageLoadId := None,
                           characterSheet :=
                             updatedSheet\<lparr>cs_statsLabel := cs_statsLabel initialCharacterSheetValues,
                                           cs_customFields := cs_customFields initialCharacterSheetValues\<rparr>,
                           resourceTrackers := [],
                           tables := []\<rparr>, w))"

definition setLoadedGameDataPackage ::
  "Env \<Rightarrow> nat \<Rightarrow> GameDataPackage option \<Rightarrow> string option \<Rightarrow> app \<Rightarrow> app" where
  "setLoadedGameDataPackage E capturedIndex gameDataPkg newLoadIdOverride =
     commitAt capturedIndex (setLoadedGameDataPackage_updater E gameDataPkg newLoadIdOverride)"

section \<open>Validation and migration of loaded data\<close>

datatype error = TypeError

text \<open>\<open>typeof v === 'string' ? v : d\<close> and its variants that draw an identifier or read the clock.\<close>

definition stringOr :: "json option \<Rightarrow> string \<Rightarrow> string" where
  "stringOr v d = (case v of Some (JStr s) \<Rightarrow> s | _ \<Rightarrow> d)"

definition numberOr :: "json option \<Rightarrow> number \<Rightarrow> number" where
  "numberOr v d = (case v of Some (JNum n) \<Rightarrow> n | _ \<Rightarrow> d)"

definition stringOrUUID :: "Env \<Rightarrow> json option \<Rightarrow> nat \<Rightarrow> string \<times> nat" where
  "stringOrUUID E v w = (case v of Some (JStr s) \<Rightarrow> (s, w) | _ \<Rightarrow> randomUUID E w)"

definition timestampOrNow :: "Env \<Rightarrow> json option \<Rightarrow> nat \<Rightarrow> string \<times> nat" where
  "timestampOrNow E v w =
     (case v of
        Some (JStr s) \<Rightarrow> if validDate E s then (s, w) else nowISO E w
      | _ \<Rightarrow> nowISO E w)"

text \<open>\<open>typeof v === 'string' && allowed.includes(v) ? v : d\<close>\<close>

definition oneOf :: "string list \<Rightarrow> json option \<Rightarrow> string \<Rightarrow> string" where
  "oneOf allowed v d = (case v of Some (JStr s) \<Rightarrow> if s \<in> set allowed then s else d | _ \<Rightarrow> d)"

text \<open>\<open>v || crypto.randomUUID()\<close>\<close>

definition truthyOrUUID :: "Env \<Rightarrow> json option \<Rightarrow> nat \<Rightarrow> json \<times> nat" where
  "truthyOrUUID E v w =
     (case v of
        Some j \<Rightarrow> if truthy j then (j, w) else (let (u, w1) = randomUUID E w in (JStr u, w1))
      | None \<Rightarrow> (let (u, w1) = randomUUID E w in (JStr u, w1)))"

text \<open>\<open>xs.map(f).filter(x => x !== null)\<close> keeps the elements that \<open>f\<close> did not map to \<open>null\<close>.\<close>

definition mapFilterW :: "('a \<Rightarrow> nat \<Rightarrow> 'b option \<times> nat) \<Rightarrow> 'a list \<Rightarrow> nat \<Rightarrow> 'b list \<times> nat" where
  "mapFilterW f xs w = (let (ys, w1) = mapW f xs w in (List.map_filter (\<lambda>y. y) ys, w1))"

subsection \<open>The session's own collections\<close>

definition validateLogEntry :: "Env \<Rightarrow> json \<Rightarrow> nat \<Rightarrow> LogEntry option \<times> nat" where
  "validateLogEntry E entry w =
     (if isNonNullObject entry then
        let (i, w1) = stringOrUUID E (get ''id'' entry) w;
            (ts, w2) = timestampOrNow E (get ''timestamp'' entry) w1
        in (Some \<lparr>le_id = i,
                  le_content = stringOr (get ''content'' entry) [],
                  le_type = oneOf [''normal'', ''heading''] (get ''type'' entry) ''normal'',
                  le_colorKey = oneOf PREDEFINED_COLORS (get ''colorKey'' entry) ''default'',
                  le_timestamp = ts\<rparr>, w2)
      else (None, w))"

text \<open>A custom field is built from every element, \<open>null\<close> and primitives included (\<open>cf?.id\<close>).\<close>

definition validateCustomField :: "Env \<Rightarrow> json \<Rightarrow> nat \<Rightarrow> CustomField \<times> nat" where
  "validateCustomField E cf w =
     (let (i, w1) = stringOrUUID E (getOpt ''id'' (Some cf)) w
      in (\<lparr>cf_id = i,
           cf_fieldName = JStr (stringOr (getOpt ''fieldName'' (Some cf)) []),
           cf_fieldValue = stringOr (getOpt ''fieldValue'' (Some cf)) []\<rparr>, w1))"

definition validateCharacterSheet :: "Env \<Rightarrow> json \<Rightarrow> nat \<Rightarrow> CharacterSheet \<times> nat" where
  "validateCharacterSheet E loadedData w =
     (let loadedSheet = orElse (get ''characterSheet'' loadedData) (JObj []);
          (fields, w1) =
            (case get ''customFields'' loadedSheet of
               Some (JArr xs) \<Rightarrow> mapW (validateCustomField E) xs w
             | _ \<Rightarrow> (cs_customFields initialCharacterSheetValues, w))
      in (\<lparr>cs_name = stringOr (get ''name'' loadedSheet) (cs_name initialCharacterSheetValues),
           cs_image = (case get ''image'' loadedSheet of
                         Some (JStr s) \<Rightarrow> Some s
                       | Some JNull \<Rightarrow> None
                       | _ \<Rightarrow> cs_image initialCharacterSheetValues),
           cs_stats = stringOr (get ''stats'' loadedSheet) (cs_stats initialCharacterSheetValues),
           cs_statsLabel =
             (case get ''statsLabel'' loadedSheet of
                Some (JStr s) \<Rightarrow> JStr s
              | _ \<Rightarrow> cs_statsLabel initialCharacterSheetValues),
           cs_customFields = fields\<rparr>, w1))"

definition validateTableEntry :: "Env \<Rightarrow> json \<Rightarrow> nat \<Rightarrow> TableEntry option \<times> nat" where
  "validateTableEntry E entry w =
     (if \<not> typeofObject entry \<or> entry = JNull then (None, w)
      else
        let (i, w1) = stringOrUUID E (get ''id'' entry) w
        in (Some \<lparr>te_id = JStr i,
                  te_value = JStr (stringOr (get ''value'' entry) []),
                  te_rollValue = (case get ''rollValue'' entry of
                                    Some (JStr s) \<Rightarrow> Some (JStr s)
                                  | _ \<Rightarrow> None)\<rparr>, w1))"

definition validateTable :: "Env \<Rightarrow> json \<Rightarrow> nat \<Rightarrow> RandomTable option \<times> nat" where
  "validateTable E table w =
     (if \<not> typeofObject table \<or> table = JNull then (None, w)
      else
        let (i, w1) = stringOrUUID E (get ''id'' table) w;
            (es, w2) =
              (case get ''entries'' table of
                 Some (JArr xs) \<Rightarrow> mapFilterW (validateTableEntry E) xs w1
               | _ \<Rightarrow> ([], w1))
        in (Some \<lparr>rt_id = JStr i,
                  rt_name = JStr (stringOr (get ''name'' table) unnamedTable),
                  rt_diceCommand = JStr (stringOr (get ''diceCommand'' table) []),
                  rt_entries = es\<rparr>, w2))"

definition validateTrackerHistoryEntry :: "Env \<Rightarrow> json \<Rightarrow> nat \<Rightarrow> TrackerHistoryEntry option \<times> nat" where
  "validateTrackerHistoryEntry E h w =
     (if \<not> typeofObject h \<or> h = JNull then (None, w)
      else
        let (i, w1) = stringOrUUID E (get ''id'' h) w;
            (ts, w2) = timestampOrNow E (get ''timestamp'' h) w1
        in (Some \<lparr>th_id = i,
                  th_timestamp = ts,
                  th_change = numberOr (get ''change'' h)(Finite 0),
                  th_previousValue = numberOr (get ''previousValue'' h)(Finite 0),
                  th_newValue = numberOr (get ''newValue'' h)(Finite 0),
                  th_reason = stringOr (get ''reason'' h) []\<rparr>, w2))"

definition validateTracker :: "Env \<Rightarrow> json \<Rightarrow> nat \<Rightarrow> ResourceTracker option \<times> nat" where
  "validateTracker E tracker w =
     (if \<not> typeofObject tracker \<or> tracker = JNull then (None, w)
      else
        let (i, w1) = stringOrUUID E (get ''id'' tracker) w;
            (hs, w2) =
              (case get ''history'' tracker of
                 Some (JArr xs) \<Rightarrow> mapFilterW (validateTrackerHistoryEntry E) xs w1
               | _ \<Rightarrow> ([], w1))
        in (Some \<lparr>tr_id = i,
                  tr_name = JStr (stringOr (get ''name'' tracker) unnamedResource),
                  tr_value = numberOr (get ''value'' tracker)(Finite 0),
                  tr_history = hs\<rparr>, w2))"

text \<open>\<open>roll.individualRolls.filter(n => typeof n === 'number')\<close>\<close>

fun numbersOf :: "json list \<Rightarrow> number list" where
  "numbersOf [] = []"
| "numbersOf (JNum n # xs) = n # numbersOf xs"
| "numbersOf (x # xs) = numbersOf xs"

definition validateDiceRoll :: "Env \<Rightarrow> json \<Rightarrow> nat \<Rightarrow> DiceRoll option \<times> nat" where
  "validateDiceRoll E roll w =
     (if \<not> typeofObject roll \<or> roll = JNull then (None, w)
      else
        let (i, w1) = stringOrUUID E (get ''id'' roll) w;
            (ts, w2) = timestampOrNow E (get ''timestamp'' roll) w1
        in (Some \<lparr>dr_id = i,
                  dr_command = stringOr (get ''command'' roll) [],
                  dr_individualRolls = (case get ''individualRolls'' roll of
                                          Some (JArr xs) \<Rightarrow> numbersOf xs
                                        | _ \<Rightarrow> []),
                  dr_total = numberOr (get ''total'' roll)(Finite 0),
                  dr_timestamp = ts\<rparr>, w2))"

subsection \<open>The embedded game-data package\<close>

text \<open>
  Inside the package the source reads the properties of every array element without a
  test for \<open>null\<close>: \<open>cft.id\<close>, \<open>section.id\<close>, \<open>rt.id\<close>, \<open>e.id\<close>, \<open>rtt.id\<close>.  On a \<open>null\<close> element
  the read raises a \<open>TypeError\<close>; the identifiers drawn before it are lost with the result.
\<close>

fun mapE :: "('a \<Rightarrow> nat \<Rightarrow> error + ('b \<times> nat)) \<Rightarrow> 'a list \<Rightarrow> nat \<Rightarrow> error + ('b list \<times> nat)" where
  "mapE f [] w = Inr ([], w)"
| "mapE f (x # xs) w =
     (case f x w of
        Inl e \<Rightarrow> Inl e
      | Inr (y, w1) \<Rightarrow>
          (case mapE f xs w1 of
             Inl e \<Rightarrow> Inl e
           | Inr (ys, w2) \<Rightarrow> Inr (y # ys, w2)))"

definition validateCustomFieldTemplate ::
  "Env \<Rightarrow> json \<Rightarrow> nat \<Rightarrow> error + (CustomFieldTemplate \<times> nat)" where
  "validateCustomFieldTemplate E cft w =
     (if cft = JNull then Inl TypeError
      else
        let (i, w1) = truthyOrUUID E (get ''id'' cft) w
        in Inr (\<lparr>cft_id = i,
                 cft_label = orElse (get ''label'' cft) (JStr untitledField),
                 cft_type = oneOf [''text'', ''textarea'', ''number''] (get ''type'' cft) ''text''\<rparr>,
                w1))"

definition validateRulebookSection ::
  "Env \<Rightarrow> json \<Rightarrow> nat \<Rightarrow> error + (RulebookSection \<times> nat)" where
  "validateRulebookSection E section' w =
     (if section' = JNull then Inl TypeError
      else
        let (i, w1) = stringOrUUID E (get ''id'' section') w
        in Inr (\<lparr>rs_id = i,
                 rs_title = stringOr (get ''title'' section') untitledSection,
                 rs_content = stringOr (get ''content'' section') []\<rparr>, w1))"

definition validatePackageTableEntry ::
  "Env \<Rightarrow> json \<Rightarrow> nat \<Rightarrow> error + (TableEntry \<times> nat)" where
  "validatePackageTableEntry E e w =
     (if e = JNull then Inl TypeError
      else
        let (i, w1) = truthyOrUUID E (get ''id'' e) w
        in Inr (\<lparr>te_id = i,
                 te_value = orElse (get ''value'' e) (JStr []),
                 te_rollValue = Some (orElse (get ''rollValue'' e) (JStr []))\<rparr>, w1))"

definition validatePackageTable ::
  "Env \<Rightarrow> json \<Rightarrow> nat \<Rightarrow> error + (RandomTable \<times> nat)" where
  "validatePackageTable E rt w =
     (if rt = JNull then Inl TypeError
      else
        let (i, w1) = truthyOrUUID E (get ''id'' rt) w
        in (case (case get ''entries'' rt of
                    Some (JArr xs) \<Rightarrow> mapE (validatePackageTableEntry E) xs w1
                  | _ \<Rightarrow> Inr ([], w1)) of
              Inl err \<Rightarrow> Inl err
            | Inr (es, w2) \<Rightarrow>
                Inr (\<lparr>rt_id = i,
                      rt_name = orElse (get ''name'' rt) (JStr untitledTable),
                      rt_diceCommand = orElse (get ''diceCommand'' rt) (JStr []),
                      rt_entries = es\<rparr>, w2)))"

definition validateResourceTrackerTemplate ::
  "Env \<Rightarrow> json \<Rightarrow> nat \<Rightarrow> error + (ResourceTrackerTemplate \<times> nat)" where
  "validateResourceTrackerTemplate E rtt w =
     (if rtt = JNull then Inl TypeError
      else
        let (i, w1) = truthyOrUUID E (get ''id'' rtt) w
        in Inr (\<lparr>rtt_id = i,
                 rtt_name = orElse (get ''name'' rtt) (JStr untitledResource),
                 rtt_initialValue = numberOr (get ''initialValue'' rtt)(Finite 0)\<rparr>, w1))"

text \<open>
  \<open>DEFAULT_GAME_DATA_PACKAGE_STRUCTURE.manifest\<close>, and the one entry of the default
  \<open>characterSheetTemplate\<close> that survives: the validator always rebuilds \<open>baseStats\<close>,
  \<open>customFieldTemplates\<close> and the five top-level keys after the spreads, so the defaults
  of those keys never reach the result.
\<close>

definition DEFAULT_manifest :: "(string \<times> json) list" where
  "DEFAULT_manifest =
     [(''gameTitle'', JStr untitledGame),
      (''author'', JStr unknownAuthor),
      (''version'', JStr ''1.0.0''),
      (''description'', JStr []),
      (''srgdVersion'', JStr ''1.0'')]"

definition DEFAULT_characterSheetTemplate_scalars :: "(string \<times> json) list" where
  "DEFAULT_characterSheetTemplate_scalars = [(''statsLabel'', JStr defaultStatsLabel)]"

definition packageKeys :: "string list" where
  "packageKeys = [''manifest'', ''characterSheetTemplate'', ''rulebookSections'',
                  ''randomTables'', ''resourceTrackerTemplates'']"

definition templateKeys :: "string list" where
  "templateKeys = [''baseStats'', ''customFieldTemplates'']"

definition withoutKeys :: "string list \<Rightarrow> (string \<times> json) list \<Rightarrow> (string \<times> json) list" where
  "withoutKeys ks kvs = filter (\<lambda>kv. fst kv \<notin> set ks) kvs"

text \<open>The elements of \<open>v\<close> when \<open>Array.isArray(v)\<close>, run through \<open>f\<close>; else the empty array.\<close>

definition mapArrayE ::
  "(json \<Rightarrow> nat \<Rightarrow> error + ('b \<times> nat)) \<Rightarrow> json option \<Rightarrow> nat \<Rightarrow> error + ('b list \<times> nat)" where
  "mapArrayE f v w = (case v of Some (JArr xs) \<Rightarrow> mapE f xs w | _ \<Rightarrow> Inr ([], w))"

definition validatePackage :: "Env \<Rightarrow> json \<Rightarrow> nat \<Rightarrow> error + (GameDataPackage \<times> nat)" where
  "validatePackage E pkg w =
     (let manifest = spread DEFAULT_manifest (ownEntries (orElse (get ''manifest'' pkg) (JObj [])));
          template = get ''characterSheetTemplate'' pkg;
          other = withoutKeys templateKeys
                    (spread DEFAULT_characterSheetTemplate_scalars
                       (ownEntries (orElse template (JObj []))));
          baseStats = (case getOpt ''baseStats'' template of Some (JArr xs) \<Rightarrow> xs | _ \<Rightarrow> [])
      in case mapArrayE (validateCustomFieldTemplate E) (getOpt ''customFieldTemplates'' template) w of
           Inl err \<Rightarrow> Inl err
         | Inr (cfts, w1) \<Rightarrow>
        (case mapArrayE (validateRulebookSection E) (get ''rulebookSections'' pkg) w1 of
           Inl err \<Rightarrow> Inl err
         | Inr (sections, w2) \<Rightarrow>
        (case mapArrayE (validatePackageTable E) (get ''randomTables'' pkg) w2 of
           Inl err \<Rightarrow> Inl err
         | Inr (rts, w3) \<Rightarrow>
        (case mapArrayE (validateResourceTrackerTemplate E) (get ''resourceTrackerTemplates'' pkg) w3 of
           Inl err \<Rightarrow> Inl err
         | Inr (rtts, w4) \<Rightarrow>
             Inr (\<lparr>gp_manifest = manifest,
                   gp_characterSheetTemplate =
                     \<lparr>cst_baseStats = baseStats, cst_customFieldTemplates = cfts, cst_other = other\<rparr>,
                   gp_rulebookSections = sections,
                   gp_randomTables = rts,
                   gp_resourceTrackerTemplates = rtts,
                   gp_other = withoutKeys packageKeys (ownEntries pkg)\<rparr>, w4)))))"

subsection \<open>The validator\<close>

text \<open>The elements of \<open>v\<close> when \<open>Array.isArray(v)\<close>, validated and filtered; else the default.\<close>

definition mapArrayW ::
  "(json \<Rightarrow> nat \<Rightarrow> 'b option \<times> nat) \<Rightarrow> json option \<Rightarrow> 'b list \<Rightarrow> nat \<Rightarrow> 'b list \<times> nat" where
  "mapArrayW f v d w = (case v of Some (JArr xs) \<Rightarrow> mapFilterW f xs w | _ \<Rightarrow> (d, w))"

definition validateAndMigrateData :: "Env \<Rightarrow> json \<Rightarrow> nat \<Rightarrow> error + (SessionState \<times> nat)" where
  "validateAndMigrateData E loadedData w =
     (if \<not> truthy loadedData \<or> \<not> typeofObject loadedData then Inr (getInitialSessionData E w)
      else
        let (initial, w0) = getInitialSessionData E w;
            (discardedId, w1) = randomUUID E w0;
            (entries, w2) = mapArrayW (validateLogEntry E) (get ''playLogEntries'' loadedData)
                              (playLogEntries initial) w1;
            title = stringOr (get ''playLogTitle'' loadedData) initialPlayLogTitle;
            (sheet, w3) = validateCharacterSheet E loadedData w2;
            (tables', w4) = mapArrayW (validateTable E) (get ''tables'' loadedData) (tables initial) w3;
            (trackers, w5) = mapArrayW (validateTracker E) (get ''resourceTrackers'' loadedData)
                               (resourceTrackers initial) w4;
            (rolls, w6) = mapArrayW (validateDiceRoll E) (get ''diceRollHistory'' loadedData)
                            (diceRollHistory initial) w5;
            theme' = stringOr (get ''theme'' loadedData) (initialDefaultTheme E)
        in case (case get ''loadedGameDataPackage'' loadedData of
                   Some pkg \<Rightarrow>
                     if truthy pkg \<and> typeofObject pkg
                     then (case validatePackage E pkg w6 of
                             Inl err \<Rightarrow> Inl err
                           | Inr (p, w7) \<Rightarrow> Inr (Some p, w7))
                     else Inr (loadedGameDataPackage initial, w6)
                 | None \<Rightarrow> Inr (loadedGameDataPackage initial, w6)) of
             Inl err \<Rightarrow> Inl err
           | Inr (package, w7) \<Rightarrow>
               let loadId0 = (case get ''gameDataPackageLoadId'' loadedData of
                                Some (JStr l) \<Rightarrow> Some l
                              | _ \<Rightarrow> None);
                   (loadId1, w8) =
                     (if package \<noteq> None \<and> (loadId0 = None \<or> loadId0 = Some [])
                      then (let (u, w') = randomUUID E w7 in (Some u, w'))
                      else (loadId0, w7));
                   loadId2 = (if package = None then None else loadId1);
                   (sid, w9) = stringOrUUID E (get ''sessionId'' loadedData) w8
               in Inr (\<lparr>sessionId = sid,
                        playLogEntries = entries,
                        playLogTitle = title,
                        characterSheet = sheet,
                        tables = tables',
                        resourceTrackers = trackers,
                        diceRollHistory = rolls,
                        theme = theme',
                        loadedGameDataPackage = package,
                        gameDataPackageLoadId = loadId2\<rparr>, w9))"

section \<open>Loading files\<close>

text \<open>
  What the user is told after a file was read: every \<open>loadError\<close> is an \<open>alert\<close> raised in
  the handler's \<open>catch\<close> block.  \<open>ReadFailed\<close> stands for a file whose content is not a
  string or not JSON text (\<open>JSON.parse\<close> throws).
\<close>

datatype loadError = ReadFailed | ValidatorRaised error | InvalidPackage


text \<open>
  \<open>handleLoadGameDataPackageFile\<close>.  The parsed file is validated under the wrapper
  \<open>{ loadedGameDataPackage: ... }\<close>; a missing package or a falsy \<open>manifest.gameTitle\<close>
  throws.  The \<open>catch\<close> block alerts and calls \<open>setLoadedGameDataPackage(null, null)\<close>.
\<close>

definition validatedPackageOf ::
  "Env \<Rightarrow> json option \<Rightarrow> nat \<Rightarrow> loadError + (GameDataPackage \<times> nat)" where
  "validatedPackageOf E parsed w =
     (case parsed of
        None \<Rightarrow> Inl ReadFailed
      | Some loadedGameData \<Rightarrow>
          (case validateAndMigrateData E (JObj [(''loadedGameDataPackage'', loadedGameData)]) w of
             Inl err \<Rightarrow> Inl (ValidatorRaised err)
           | Inr (validated, w1) \<Rightarrow>
               (case loadedGameDataPackage validated of
                  None \<Rightarrow> Inl InvalidPackage
                | Some pkg \<Rightarrow>
                    if \<not> truthyOpt (map_of (gp_manifest pkg) ''gameTitle'')
                    then Inl InvalidPackage
                    else Inr (pkg, w1))))"

definition handleLoadGameDataPackageFile ::
  "Env \<Rightarrow> json option \<Rightarrow> app \<Rightarrow> app \<times> loadError option" where
  "handleLoadGameDataPackageFile E parsed a =
     (case a of (h, w) \<Rightarrow>
        (case validatedPackageOf E parsed w of
           Inr (loadedGameData, w1) \<Rightarrow>
             let (newLoadId, w2) = randomUUID E w1
             in (setLoadedGameDataPackage E (currentSessionIndex h) (Some loadedGameData)
                   (Some newLoadId) (h, w2), None)
         | Inl err \<Rightarrow>
             (setLoadedGameDataPackage E (currentSessionIndex h) None None (h, w), Some err)))"

section \<open>Valid session states\<close>


text \<open>The values that \<open>JSON.stringify\<close> and \<open>JSON.parse\<close> give back unchanged.\<close>

definition stringifiable :: "json \<Rightarrow> bool" where
  "stringifiable v = (reparse v = v)"






definition truthyOrEmpty :: "json \<Rightarrow> bool" where
  "truthyOrEmpty v = (truthy v \<or> v = JStr [])"


definition validPackageTableEntry :: "TableEntry \<Rightarrow> bool" where
  "validPackageTableEntry e =
     (truthy (te_id e) \<and> stringifiable (te_id e)
      \<and> truthyOrEmpty (te_value e) \<and> stringifiable (te_value e)
      \<and> (case te_rollValue e of None \<Rightarrow> False | Some v \<Rightarrow> truthyOrEmpty v \<and> stringifiable v))"

definition validPackageTable :: "RandomTable \<Rightarrow> bool" where
  "validPackageTable t =
     (truthy (rt_id t) \<and> stringifiable (rt_id t)
      \<and> truthy (rt_name t) \<and> stringifiable (rt_name t)
      \<and> truthyOrEmpty (rt_diceCommand t) \<and> stringifiable (rt_diceCommand t)
      \<and> list_all validPackageTableEntry (rt_entries t))"














section \<open>Bounds on the recorded histories\<close>

text \<open>
  The bounds of the data model: at most 20 dice rolls and at most 50 history records per
  tracker.
\<close>

definition withinBounds :: "SessionState \<Rightarrow> bool" where
  "withinBounds s =
     (length (diceRollHistory s) \<le> 20
      \<and> list_all (\<lambda>t. length (tr_history t) \<le> 50) (resourceTrackers s))"

text \<open>The elements of an input array that the validator keeps: the non-null objects.\<close>

definition objectElements :: "json option \<Rightarrow> json list" where
  "objectElements v = (case v of Some (JArr xs) \<Rightarrow> filter isNonNullObject xs | _ \<Rightarrow> [])"

section \<open>A concrete environment\<close>

text \<open>An environment and a fresh session on which the definitions are run below.\<close>

definition exampleEnv :: Env where
  "exampleEnv =
     \<lparr>uuid = (\<lambda>n. ''id-'' @ showNat n),
      clock = (\<lambda>n. ''2024-05-01T10:00:00.000Z''),
      validDate = (\<lambda>s. length s = 24),
      prefersDark = True,
      parseFloat = (\<lambda>s. if s = ''5'' then Finite 5 else if s = ''7'' then Finite 7 else NaN),
      formatNumber = (\<lambda>q. ''?'')\<rparr>"

definition freshSession :: SessionState where
  "freshSession = fst (getInitialSessionData exampleEnv 0)"

text \<open>A small validated package: one number field, one table, one tracker template.\<close>

definition examplePackage :: GameDataPackage where
  "examplePackage =
     \<lparr>gp_manifest = [(''gameTitle'', JStr ''G''), (''author'', JStr unknownAuthor),
                     (''version'', JStr ''1.0.0''), (''description'', JStr []),
                     (''srgdVersion'', JStr ''1.0''), (''homepage'', JStr ''example.org'')],
      gp_characterSheetTemplate =
        \<lparr>cst_baseStats = [],
         cst_customFieldTemplates = [\<lparr>cft_id = JStr ''f'', cft_label = JStr ''Gold'', cft_type = ''number''\<rparr>],
         cst_other = [(''statsLabel'', JStr ''Stats'')]\<rparr>,
      gp_rulebookSections = [],
      gp_randomTables =
        [\<lparr>rt_id = JStr ''pt'', rt_name = JStr ''Weather'', rt_diceCommand = JStr [],
          rt_entries = [\<lparr>te_id = JStr ''w1'', te_value = JStr ''Rain'', te_rollValue = Some (JStr [])\<rparr>]\<rparr>],
      gp_resourceTrackerTemplates = [\<lparr>rtt_id = JStr ''x'', rtt_name = JStr ''HP'', rtt_initialValue = Finite 10\<rparr>],
      gp_other = []\<rparr>"



text \<open>
  A session whose dice history is full (the oldest roll last), one whose tracker was set to
  a value beyond the doubles, and one whose tracker has a full history (the oldest record
  last).
\<close>

definition rolledSession :: SessionState where
  "rolledSession =
     freshSession
       \<lparr>diceRollHistory :=
          replicate 19 \<lparr>dr_id = ''recent'', dr_command = ''1d6'', dr_individualRolls = [Finite 4],
                         dr_total = Finite 4, dr_timestamp = ''2024-05-01T09:00:00.000Z''\<rparr>
          @ [\<lparr>dr_id = ''oldest'', dr_command = ''1d6'', dr_individualRolls = [Finite 1],
              dr_total = Finite 1, dr_timestamp = ''2024-05-01T08:00:00.000Z''\<rparr>]\<rparr>"

definition wornTracker :: ResourceTracker where
  "wornTracker =
     \<lparr>tr_id = ''W'', tr_name = JStr ''MP'', tr_value = Finite 5,
      tr_history =
        replicate 49 \<lparr>th_id = ''recent'', th_timestamp = ''2024-05-01T09:00:00.000Z'',
                        th_change = Finite 0, th_previousValue = Finite 5,
                        th_newValue = Finite 5, th_reason = ''check''\<rparr>
        @ [\<lparr>th_id = ''oldest'', th_timestamp = ''2024-05-01T08:00:00.000Z'',
            th_change = Finite 5, th_previousValue = Finite 0,
            th_newValue = Finite 5, th_reason = ''start''\<rparr>]\<rparr>"


definition wornSession :: SessionState where
  "wornSession = freshSession\<lparr>resourceTrackers := [wornTracker]\<rparr>"

text \<open>
  A session with an entry in every collection and a loaded package; its second table was
  imported from a CSV file without a dice line.
\<close>

definition savedSession :: SessionState where
  "savedSession =
     freshSession
       \<lparr>playLogEntries :=
          [\<lparr>le_id = ''e1'', le_content = ''Into the cave'', le_type = ''heading'',
            le_colorKey = ''red'', le_timestamp = ''2024-05-01T09:00:00.000Z''\<rparr>],
        characterSheet :=
          \<lparr>cs_name = ''Ayla'', cs_image = None, cs_stats = ''STR 3'',
           cs_statsLabel = JStr ''Stats'',
           cs_customFields = [\<lparr>cf_id = ''c1'', cf_fieldName = JStr ''Gold'', cf_fieldValue = ''12''\<rparr>]\<rparr>,
        tables :=
          [\<lparr>rt_id = JStr ''t1'', rt_name = JStr ''Loot'', rt_diceCommand = JStr ''1d6'',
            rt_entries = [\<lparr>te_id = JStr ''a'', te_value = JStr ''Gem'', te_rollValue = Some (JStr ''1-3'')\<rparr>,
                          \<lparr>te_id = JStr ''b'', te_value = JStr ''Dust'', te_rollValue = None\<rparr>]\<rparr>,
           \<lparr>rt_id = JStr ''t2'', rt_name = JStr ''Names'', rt_diceCommand = JNull,
            rt_entries = [\<lparr>te_id = JStr ''c'', te_value = JStr ''Mira'', te_rollValue = None\<rparr>]\<rparr>],
        resourceTrackers :=
          [\<lparr>tr_id = ''T'', tr_name = JStr ''HP'', tr_value = Finite 7,
            tr_history = [\<lparr>th_id = ''h1'', th_timestamp = ''2024-05-01T09:30:00.000Z'',
                            th_change = Finite 2, th_previousValue = Finite 5,
                            th_newValue = Finite 7, th_reason = ''potion''\<rparr>]\<rparr>],
        diceRollHistory :=
          [\<lparr>dr_id = ''d1'', dr_command = ''2d6'', dr_individualRolls = [Finite 3, Finite 4],
            dr_total = Finite 7,
            dr_timestamp = ''2024-05-01T09:45:00.000Z''\<rparr>],
        theme := ''earth'',
        loadedGameDataPackage := Some examplePackage,
        gameDataPackageLoadId := Some ''L1''\<rparr>"

section \<open>Properties of the history\<close>

lemma store_inv_updateAt: "store_inv h \<Longrightarrow> store_inv (updateHistoryAt i u h)"
  by (auto simp: store_inv_def updateHistoryAt_def Let_def MAX_HISTORY_SIZE_def split: option.splits)

lemma store_inv_undo: "store_inv h \<Longrightarrow> store_inv (handleUndo h)"
  by (auto simp: store_inv_def handleUndo_def)

lemma store_inv_redo: "store_inv h \<Longrightarrow> store_inv (handleRedo h)"
  by (auto simp: store_inv_def handleRedo_def)

lemma reachable_inv: "reachable h \<Longrightarrow> store_inv h"
proof (induction rule: reachable.induct)
  case (reach_reset s)
  show ?case by (simp add: resetTo_def store_inv_def)
qed (simp_all add: store_inv_updateAt store_inv_undo store_inv_redo)

lemma reachable_updateHistory: "reachable h \<Longrightarrow> reachable (updateHistory u h)"
  unfolding updateHistory_def
  by (rule reach_commit) (use reachable_inv in \<open>auto simp: store_inv_def\<close>)

lemma updateHistory_commit:
  assumes "applyUpdater u (currentSessionData h) = Some d" and "sessionId d \<noteq> []"
  shows "sessionHistory (updateHistory u h) =
           drop (length (take (currentSessionIndex h + 1) (sessionHistory h)) + 1 - MAX_HISTORY_SIZE)
                (take (currentSessionIndex h + 1) (sessionHistory h) @ [d])"
    and "currentSessionIndex (updateHistory u h) = length (sessionHistory (updateHistory u h)) - 1"
  using assms by (auto simp: updateHistory_def updateHistoryAt_def currentSessionData_def Let_def)

lemma nth_opt_last: "xs \<noteq> [] \<Longrightarrow> nth_opt xs (length xs - 1) = Some (last xs)"
  by (simp add: nth_opt_def last_conv_nth)

lemma commitAt_current:
  assumes "currentSessionData h = Some cur" and "sessionId (fst (f cur w)) \<noteq> []"
  shows "sessionHistory (fst (commitAt (currentSessionIndex h) f (h, w))) =
           drop (currentSessionIndex h + 2 - MAX_HISTORY_SIZE)
                (take (currentSessionIndex h + 1) (sessionHistory h) @ [fst (f cur w)])"
    and "currentSessionIndex (fst (commitAt (currentSessionIndex h) f (h, w))) =
           length (sessionHistory (fst (commitAt (currentSessionIndex h) f (h, w)))) - 1"
    and "currentSessionData (fst (commitAt (currentSessionIndex h) f (h, w))) = Some (fst (f cur w))"
    and "snd (commitAt (currentSessionIndex h) f (h, w)) = snd (f cur w)"
proof -
  from assms(1) have c: "currentSessionIndex h < length (sessionHistory h)"
    and n: "nth_opt (sessionHistory h) (currentSessionIndex h) = Some cur"
    by (auto simp: currentSessionData_def nth_opt_def split: if_splits)
  have l: "length (take (currentSessionIndex h + 1) (sessionHistory h)) = currentSessionIndex h + 1"
    using c by simp
  have app: "applyUpdater (mutator (\<lambda>s. fst (f s w))) (currentSessionData h) = Some (fst (f cur w))"
    by (simp add: applyUpdater_def mutator_def assms(1))
  have fstc: "fst (commitAt (currentSessionIndex h) f (h, w)) =
      updateHistory (mutator (\<lambda>s. fst (f s w))) h"
    by (simp add: commitAt_def updateHistory_def)
  have hist: "sessionHistory (fst (commitAt (currentSessionIndex h) f (h, w))) =
      drop (currentSessionIndex h + 2 - MAX_HISTORY_SIZE)
           (take (currentSessionIndex h + 1) (sessionHistory h) @ [fst (f cur w)])"
    using updateHistory_commit(1)[OF app assms(2)] unfolding l fstc by simp
  have idx: "currentSessionIndex (fst (commitAt (currentSessionIndex h) f (h, w))) =
      length (sessionHistory (fst (commitAt (currentSessionIndex h) f (h, w)))) - 1"
    using updateHistory_commit(2)[OF app assms(2)] unfolding fstc .
  show "sessionHistory (fst (commitAt (currentSessionIndex h) f (h, w))) =
           drop (currentSessionIndex h + 2 - MAX_HISTORY_SIZE)
                (take (currentSessionIndex h + 1) (sessionHistory h) @ [fst (f cur w)])"
    by (rule hist)
  show "currentSessionIndex (fst (commitAt (currentSessionIndex h) f (h, w))) =
           length (sessionHistory (fst (commitAt (currentSessionIndex h) f (h, w)))) - 1"
    by (rule idx)
  define xs where "xs = sessionHistory (fst (commitAt (currentSessionIndex h) f (h, w)))"
  have ne: "xs \<noteq> []"
    using c unfolding xs_def hist by (simp add: MAX_HISTORY_SIZE_def)
  have "last xs = fst (f cur w)"
    using c unfolding xs_def hist by (simp add: last_drop MAX_HISTORY_SIZE_def)
  with nth_opt_last[OF ne]
  show "currentSessionData (fst (commitAt (currentSessionIndex h) f (h, w))) = Some (fst (f cur w))"
    unfolding currentSessionData_def idx xs_def by simp
  show "snd (commitAt (currentSessionIndex h) f (h, w)) = snd (f cur w)"
    using n by (simp add: commitAt_def)
qed

lemma trace_snoc: "trace s (fs @ [f]) = trace s fs @ [f (foldl (\<lambda>s f. f s) s fs)]"
  by (induction fs arbitrary: s) auto

lemma length_trace: "length (trace s fs) = length fs + 1"
  by (induction fs arbitrary: s) auto

lemma trace_ne: "trace s fs \<noteq> []"
  by (cases fs) auto

lemma last_trace: "last (trace s fs) = foldl (\<lambda>s f. f s) s fs"
  by (induction fs arbitrary: s) (auto simp: trace_ne)

lemma commits_snoc: "commits (fs @ [f]) h = updateHistory (mutator f) (commits fs h)"
  by (simp add: commits_def)

lemma commits_trace:
  "\<forall>s\<in>set (tl (trace s0 fs)). sessionId s \<noteq> [] \<Longrightarrow>
   sessionHistory (commits fs (resetTo s0)) = drop (length fs + 1 - MAX_HISTORY_SIZE) (trace s0 fs) \<and>
   currentSessionIndex (commits fs (resetTo s0)) = length (sessionHistory (commits fs (resetTo s0))) - 1"
proof (induction fs rule: rev_induct)
  case Nil
  show ?case by (simp add: commits_def resetTo_def MAX_HISTORY_SIZE_def)
next
  case (snoc f fs)
  let ?h = "commits fs (resetTo s0)"
  let ?c = "foldl (\<lambda>s f. f s) s0 fs"
  from snoc.prems have valid: "sessionId (f ?c) \<noteq> []"
    using trace_ne[of s0 fs] by (cases "trace s0 fs") (auto simp: trace_snoc)
  from snoc.prems have "\<forall>s\<in>set (tl (trace s0 fs)). sessionId s \<noteq> []"
    by (cases "trace s0 fs") (auto simp: trace_snoc)
  with snoc.IH have H: "sessionHistory ?h = drop (length fs + 1 - MAX_HISTORY_SIZE) (trace s0 fs)"
    and I: "currentSessionIndex ?h = length (sessionHistory ?h) - 1" by auto
  have ne: "sessionHistory ?h \<noteq> []"
    using H by (simp add: length_trace MAX_HISTORY_SIZE_def)
  have lastH: "last (sessionHistory ?h) = ?c"
    using H ne by (simp add: last_drop length_trace last_trace MAX_HISTORY_SIZE_def)
  have cur: "currentSessionData ?h = Some ?c"
    using ne I lastH by (simp add: currentSessionData_def nth_opt_def last_conv_nth)
  have app: "applyUpdater (mutator f) (currentSessionData ?h) = Some (f ?c)"
    by (simp add: applyUpdater_def mutator_def cur)
  have tk: "take (currentSessionIndex ?h + 1) (sessionHistory ?h) = sessionHistory ?h"
    using I ne by simp
  have len: "length (sessionHistory ?h) = min (length fs + 1) MAX_HISTORY_SIZE"
    using H by (auto simp: length_trace MAX_HISTORY_SIZE_def)
  have "sessionHistory (updateHistory (mutator f) ?h) =
        drop (length (sessionHistory ?h) + 1 - MAX_HISTORY_SIZE) (sessionHistory ?h @ [f ?c])"
    using updateHistory_commit(1)[OF app valid] unfolding tk .
  also have "\<dots> = drop (length (fs @ [f]) + 1 - MAX_HISTORY_SIZE) (trace s0 (fs @ [f]))"
    using len by (auto simp: H trace_snoc length_trace MAX_HISTORY_SIZE_def min_def Suc_diff_le
        intro: arg_cong2[where f=drop])
  finally show ?case
    using updateHistory_commit(2)[OF app valid] by (simp add: commits_snoc)
qed

lemma commit_sequence:
  assumes "\<forall>s\<in>set (tl (trace s0 fs)). sessionId s \<noteq> []"
  shows "length (sessionHistory (commits fs (resetTo s0))) = min (length fs + 1) MAX_HISTORY_SIZE
       \<and> sessionHistory (commits fs (resetTo s0)) = drop (length fs + 1 - MAX_HISTORY_SIZE) (trace s0 fs)
       \<and> currentSessionIndex (commits fs (resetTo s0)) = length (sessionHistory (commits fs (resetTo s0))) - 1
       \<and> currentSessionData (commits fs (resetTo s0)) = Some (foldl (\<lambda>s f. f s) s0 fs)"
proof -
  let ?h = "commits fs (resetTo s0)"
  from commits_trace[OF assms]
  have H: "sessionHistory ?h = drop (length fs + 1 - MAX_HISTORY_SIZE) (trace s0 fs)"
    and I: "currentSessionIndex ?h = length (sessionHistory ?h) - 1" by auto
  have len: "length (sessionHistory ?h) = min (length fs + 1) MAX_HISTORY_SIZE"
    using H by (auto simp: length_trace MAX_HISTORY_SIZE_def)
  have ne: "sessionHistory ?h \<noteq> []"
    using len by (auto simp: MAX_HISTORY_SIZE_def)
  have "last (sessionHistory ?h) = foldl (\<lambda>s f. f s) s0 fs"
    using H ne by (simp add: last_drop length_trace last_trace MAX_HISTORY_SIZE_def)
  then have "currentSessionData ?h = Some (foldl (\<lambda>s f. f s) s0 fs)"
    using ne I by (simp add: currentSessionData_def nth_opt_def last_conv_nth)
  with H I len show ?thesis by simp
qed

lemma freshSession_id: "sessionId freshSession = ''id-0''"
  by (simp add: freshSession_def getInitialSessionData_def randomUUID_def exampleEnv_def showNat.simps)

lemma trim_examples: "trim [] = []" "trim ''2d6'' = ''2d6''" "trim ''5'' = ''5''" "trim ''7'' = ''7''"
  "trim [CHR 0xE3, CHR 0x80, CHR 0x80] = []" "trim (CHR 0xC2 # CHR 0xA0 # ''ok '') = ''ok''"
  by code_simp+

text \<open>
  C2.  The commits of a sequence compose (\<open>commit_sequence\<close> above) when each is made by a
  callback built after the commit before it was rendered.  Two commits made by callbacks
  of one render both read the index captured at that render: the second starts from the
  snapshot the first started from and writes its result over the first's.  With room for
  two more snapshots, the history after the two commits \<open>f1\<close>, \<open>f2\<close> at index \<open>i\<close> is the
  history up to \<open>i\<close> followed by \<open>f2 s\<close> alone: from a one-snapshot history its length is 2,
  not 3, and the current snapshot is \<open>f2 s\<close>, not \<open>f2 (f1 s)\<close>.  Every dice roll makes two
  such commits (\<open>setDiceRollHistory\<close>, then \<open>addLogEntry\<close>).
\<close>

theorem C2_commits_of_one_render:
  assumes "nth_opt (sessionHistory h) i = Some s"
    and "i + 2 \<le> MAX_HISTORY_SIZE"
    and "sessionId (f1 s) \<noteq> []"
    and "sessionId (f2 s) \<noteq> []"
  shows "updateHistoryAt i (mutator f2) (updateHistoryAt i (mutator f1) h)
           = \<lparr>sessionHistory = take (i + 1) (sessionHistory h) @ [f2 s], currentSessionIndex = i + 1\<rparr>
       \<and> length (sessionHistory (updateHistoryAt i (mutator f2) (updateHistoryAt i (mutator f1) h))) = i + 2
       \<and> currentSessionData (updateHistoryAt i (mutator f2) (updateHistoryAt i (mutator f1) h))
           = Some (f2 s)"
proof -
  from assms(1) have i: "i < length (sessionHistory h)" and s: "sessionHistory h ! i = s"
    by (auto simp: nth_opt_def split: if_splits)
  have first: "updateHistoryAt i (mutator f1) h
      = \<lparr>sessionHistory = take (i + 1) (sessionHistory h) @ [f1 s], currentSessionIndex = i + 1\<rparr>"
    using assms i by (simp add: updateHistoryAt_def applyUpdater_def mutator_def Let_def)
  have again: "nth_opt (take (i + 1) (sessionHistory h) @ [f1 s]) i = Some s"
    using i s by (simp add: nth_opt_def nth_append)
  have second: "updateHistoryAt i (mutator f2)
        \<lparr>sessionHistory = take (i + 1) (sessionHistory h) @ [f1 s], currentSessionIndex = i + 1\<rparr>
      = \<lparr>sessionHistory = take (i + 1) (sessionHistory h) @ [f2 s], currentSessionIndex = i + 1\<rparr>"
    using assms(2,4) i again by (simp add: updateHistoryAt_def applyUpdater_def mutator_def Let_def)
  show ?thesis
    unfolding first second using i
    by (simp add: currentSessionData_def nth_opt_def nth_append)
qed

theorem C2_commits_of_one_render_witness:
  "length (sessionHistory
     (fst (handleRollDice exampleEnv (\<lambda>c. Inr (c, [Finite 3, Finite 4], Finite 7)) ''2d6''
             (resetTo freshSession, 1)))) = 2
   \<and> map_option diceRollHistory
       (currentSessionData
          (fst (handleRollDice exampleEnv (\<lambda>c. Inr (c, [Finite 3, Finite 4], Finite 7)) ''2d6''
                  (resetTo freshSession, 1)))) = Some []
   \<and> map_option (\<lambda>s. length (playLogEntries s))
       (currentSessionData
          (fst (handleRollDice exampleEnv (\<lambda>c. Inr (c, [Finite 3, Finite 4], Finite 7)) ''2d6''
                  (resetTo freshSession, 1)))) = Some 1"
proof -
  let ?roll = "\<lparr>dr_id = uuid exampleEnv 1, dr_command = ''2d6'',
                dr_individualRolls = [Finite 3, Finite 4], dr_total = Finite 7,
                dr_timestamp = clock exampleEnv 2\<rparr>"
  let ?f1 = "setDiceRollHistory_updater (pushRoll ?roll)"
  let ?f2 = "\<lambda>s. fst (addPlayLogEntry_updater exampleEnv
                 (msgDiceRoll @ ''2d6'' @ ''): ''
                    @ joinWith '', '' (map (numberToString exampleEnv) [Finite 3, Finite 4])
                    @ '' = '' @ numberToString exampleEnv (Finite 7))
                 ''normal'' ''default'' None s 3)"
  define H where "H = updateHistoryAt 0 (mutator ?f2) (updateHistoryAt 0 (mutator ?f1) (resetTo freshSession))"
  have run: "fst (handleRollDice exampleEnv (\<lambda>c. Inr (c, [Finite 3, Finite 4], Finite 7)) ''2d6''
                    (resetTo freshSession, 1)) = H"
    unfolding H_def
    by (simp add: handleRollDice_def trim_examples Let_def randomUUID_def nowISO_def
        setDiceRollHistory_def addPlayLogEntry_def commitAt_def resetTo_def nth_opt_def
        eval_nat_numeral)
  have n: "nth_opt (sessionHistory (resetTo freshSession)) 0 = Some freshSession"
    by (simp add: nth_opt_def resetTo_def)
  have i1: "sessionId (?f1 freshSession) \<noteq> []"
    by (simp add: setDiceRollHistory_updater_def freshSession_id)
  have i2: "sessionId (?f2 freshSession) \<noteq> []"
    by (simp add: addPlayLogEntry_updater_def randomUUID_def nowISO_def Let_def freshSession_id)
  have f: "diceRollHistory freshSession = []" "playLogEntries freshSession = []"
    by (simp_all add: freshSession_def getInitialSessionData_def randomUUID_def)
  have room: "0 + 2 \<le> MAX_HISTORY_SIZE"
    by (simp add: MAX_HISTORY_SIZE_def)
  note c = C2_commits_of_one_render[where ?f1.0 = "?f1" and ?f2.0 = "?f2", OF n room i1 i2,
      folded H_def]
  from c have "length (sessionHistory H) = 0 + 2" and "currentSessionData H = Some (?f2 freshSession)"
    by blast+
  then show ?thesis
    unfolding run
    by (simp add: addPlayLogEntry_updater_def randomUUID_def nowISO_def Let_def f)
qed



text \<open>
  C9.  At cursor 0 of a history with a later snapshot, undo changes nothing and the redo
  that follows moves to index 1: undo then redo does not return to the snapshot it started
  from.  The store below is reached by one commit and one undo.
\<close>

theorem C9_undo_redo_counterexample:
  "reachable (handleUndo (updateHistory (mutator (setTheme_updater ''pastel'')) (resetTo freshSession)))
   \<and> currentSessionData
       (handleUndo (updateHistory (mutator (setTheme_updater ''pastel'')) (resetTo freshSession)))
     = Some freshSession
   \<and> currentSessionData
       (handleRedo (handleUndo
          (handleUndo (updateHistory (mutator (setTheme_updater ''pastel'')) (resetTo freshSession)))))
     = Some (freshSession\<lparr>theme := ''pastel''\<rparr>)
   \<and> freshSession\<lparr>theme := ''pastel''\<rparr> \<noteq> freshSession"
proof -
  have r: "reachable (handleUndo (updateHistory (mutator (setTheme_updater ''pastel'')) (resetTo freshSession)))"
    by (simp add: reach_undo reachable_updateHistory reach_reset)
  have t: "theme freshSession = ''dark''"
    by (simp add: freshSession_def getInitialSessionData_def randomUUID_def exampleEnv_def
        initialDefaultTheme_def)
  have ne: "freshSession\<lparr>theme := ''pastel''\<rparr> \<noteq> freshSession"
  proof
    assume "freshSession\<lparr>theme := ''pastel''\<rparr> = freshSession"
    then have "theme (freshSession\<lparr>theme := ''pastel''\<rparr>) = theme freshSession" by simp
    then show False by (simp add: t)
  qed
  show ?thesis
    using r ne
    by (simp add: updateHistory_def updateHistoryAt_def resetTo_def handleUndo_def handleRedo_def
        currentSessionData_def nth_opt_def applyUpdater_def mutator_def setTheme_updater_def
        MAX_HISTORY_SIZE_def freshSession_id Let_def)
qed

text \<open>
  C9, amended.  From every reachable position whose cursor is not 0, undo then redo gives
  back the same store, hence the same cursor and snapshot.  At cursor 0 undo is a no-op
  and the redo moves the cursor to index 1 when the history has one.
\<close>

theorem C9_undo_redo:
  assumes "reachable h"
  shows "(0 < currentSessionIndex h \<longrightarrow>
            handleRedo (handleUndo h) = h
          \<and> currentSessionData (handleRedo (handleUndo h)) = currentSessionData h)
       \<and> (currentSessionIndex h = 0 \<longrightarrow>
            handleUndo h = h
          \<and> currentSessionIndex (handleRedo (handleUndo h)) = min 1 (length (sessionHistory h) - 1))"
proof -
  from reachable_inv[OF assms] have c: "currentSessionIndex h < length (sessionHistory h)"
    by (simp add: store_inv_def)
  have ret: "0 < currentSessionIndex h \<Longrightarrow> handleRedo (handleUndo h) = h"
    using c by (simp add: handleUndo_def handleRedo_def min_def)
  have stay: "currentSessionIndex h = 0 \<Longrightarrow> handleUndo h = h"
    by (simp add: handleUndo_def)
  have fwd: "currentSessionIndex h = 0 \<Longrightarrow>
      currentSessionIndex (handleRedo (handleUndo h)) = min 1 (length (sessionHistory h) - 1)"
    using c by (auto simp: handleUndo_def handleRedo_def min_def)
  show ?thesis
    using ret stay fwd by simp
qed

theorem C9_undo_redo_witness:
  "handleRedo (handleUndo (updateHistory (mutator (setTheme_updater ''pastel'')) (resetTo freshSession)))
   = updateHistory (mutator (setTheme_updater ''pastel'')) (resetTo freshSession)
   \<and> currentSessionIndex (updateHistory (mutator (setTheme_updater ''pastel'')) (resetTo freshSession)) = 1
   \<and> currentSessionIndex
       (handleRedo (handleUndo
          (handleUndo (updateHistory (mutator (setTheme_updater ''pastel'')) (resetTo freshSession))))) = 1
   \<and> currentSessionIndex
       (handleUndo (updateHistory (mutator (setTheme_updater ''pastel'')) (resetTo freshSession))) = 0"
proof -
  let ?h = "updateHistory (mutator (setTheme_updater ''pastel'')) (resetTo freshSession)"
  have r: "reachable ?h"
    by (simp add: reachable_updateHistory reach_reset)
  have i: "currentSessionIndex ?h = 1" and l: "length (sessionHistory ?h) = 2"
    by (simp_all add: updateHistory_def updateHistoryAt_def resetTo_def nth_opt_def applyUpdater_def
        mutator_def setTheme_updater_def MAX_HISTORY_SIZE_def freshSession_id Let_def)
  have r0: "reachable (handleUndo ?h)"
    by (rule reach_undo[OF r])
  have i0: "currentSessionIndex (handleUndo ?h) = 0" and l0: "length (sessionHistory (handleUndo ?h)) = 2"
    using i l by (simp_all add: handleUndo_def)
  from C9_undo_redo[OF r] C9_undo_redo[OF r0] i i0 l0 show ?thesis by simp
qed


section \<open>Properties of the validator\<close>

lemma getInitialSessionData_fields:
  "getInitialSessionData E w =
     (\<lparr>sessionId = uuid E w, playLogEntries = [], playLogTitle = initialPlayLogTitle,
       characterSheet = initialCharacterSheetValues, tables = [], resourceTrackers = [],
       diceRollHistory = [], theme = initialDefaultTheme E, loadedGameDataPackage = None,
       gameDataPackageLoadId = None\<rparr>, Suc w)"
  by (simp add: getInitialSessionData_def randomUUID_def)

lemma validate_shape:
  assumes "validateAndMigrateData E j w = Inr (s, w')" and "truthy j" and "typeofObject j"
  shows "\<exists>w1 w2 w3 w4 w5 i p l.
           s = \<lparr>sessionId = i,
                playLogEntries = fst (mapArrayW (validateLogEntry E) (get ''playLogEntries'' j) [] w1),
                playLogTitle = stringOr (get ''playLogTitle'' j) initialPlayLogTitle,
                characterSheet = fst (validateCharacterSheet E j w2),
                tables = fst (mapArrayW (validateTable E) (get ''tables'' j) [] w3),
                resourceTrackers = fst (mapArrayW (validateTracker E) (get ''resourceTrackers'' j) [] w4),
                diceRollHistory = fst (mapArrayW (validateDiceRoll E) (get ''diceRollHistory'' j) [] w5),
                theme = stringOr (get ''theme'' j) (initialDefaultTheme E),
                loadedGameDataPackage = p,
                gameDataPackageLoadId = l\<rparr>"
  using assms
  unfolding validateAndMigrateData_def getInitialSessionData_fields
  by (auto simp: Let_def case_prod_beta split: sum.splits)

lemma mapFilterW_Nil: "mapFilterW f [] w = ([], w)"
  by (simp add: mapFilterW_def List.map_filter_simps)

lemma mapFilterW_Cons:
  "mapFilterW f (x # xs) w =
     (case fst (f x w) of
        None \<Rightarrow> mapFilterW f xs (snd (f x w))
      | Some y \<Rightarrow> (y # fst (mapFilterW f xs (snd (f x w))), snd (mapFilterW f xs (snd (f x w)))))"
  by (simp add: mapFilterW_def List.map_filter_simps case_prod_beta Let_def split: option.splits)

lemma map_mapFilterW:
  assumes "\<And>x w. map_option h (fst (f x w)) = (if P x then Some (g x) else None)"
  shows "map h (fst (mapFilterW f xs w)) = map g (filter P xs)"
proof (induction xs arbitrary: w)
  case Nil
  show ?case by (simp add: mapFilterW_Nil)
next
  case (Cons x xs)
  show ?case
  proof (cases "fst (f x w)")
    case None
    with assms[of x w] have "\<not> P x" by (auto split: if_splits)
    with None Cons.IH show ?thesis by (simp add: mapFilterW_Cons)
  next
    case (Some y)
    with assms[of x w] have "P x" "h y = g x" by (auto split: if_splits)
    with Some Cons.IH show ?thesis by (simp add: mapFilterW_Cons)
  qed
qed

lemma length_mapFilterW:
  assumes "\<And>x w. (fst (f x w) \<noteq> None) = P x"
  shows "length (fst (mapFilterW f xs w)) = length (filter P xs)"
proof -
  have "map (\<lambda>y. ()) (fst (mapFilterW f xs w)) = map (\<lambda>x. ()) (filter P xs)"
  proof (rule map_mapFilterW)
    fix x w
    show "map_option (\<lambda>y. ()) (fst (f x w)) = (if P x then Some () else None)"
      using assms[of x w] by (cases "fst (f x w)") auto
  qed
  then have "length (map (\<lambda>y. ()) (fst (mapFilterW f xs w))) = length (map (\<lambda>x. ()) (filter P xs))"
    by simp
  then show ?thesis by simp
qed

lemma validateDiceRoll_kept: "(fst (validateDiceRoll E x w) \<noteq> None) = isNonNullObject x"
  by (auto simp: validateDiceRoll_def isNonNullObject_def Let_def case_prod_beta)

lemma validateTrackerHistoryEntry_kept:
  "(fst (validateTrackerHistoryEntry E x w) \<noteq> None) = isNonNullObject x"
  by (auto simp: validateTrackerHistoryEntry_def isNonNullObject_def Let_def case_prod_beta)

lemma validateTracker_history:
  "map_option (\<lambda>t. length (tr_history t)) (fst (validateTracker E x w)) =
     (if isNonNullObject x then Some (length (objectElements (get ''history'' x))) else None)"
  by (auto simp: validateTracker_def objectElements_def Let_def case_prod_beta
      length_mapFilterW[OF validateTrackerHistoryEntry_kept]
      split: option.splits json.splits)
     (auto simp: isNonNullObject_def)

lemma validated_diceRollHistory_length:
  assumes "validateAndMigrateData E j w = Inr (s, w')" and "truthy j" and "typeofObject j"
  shows "length (diceRollHistory s) = length (objectElements (get ''diceRollHistory'' j))"
proof -
  from validate_shape[OF assms] obtain w5 where
    "diceRollHistory s = fst (mapArrayW (validateDiceRoll E) (get ''diceRollHistory'' j) [] w5)"
    by auto
  then show ?thesis
    by (simp add: mapArrayW_def objectElements_def length_mapFilterW[OF validateDiceRoll_kept]
        split: option.splits json.splits)
qed

lemma validated_tracker_history_lengths:
  assumes "validateAndMigrateData E j w = Inr (s, w')" and "truthy j" and "typeofObject j"
  shows "map (\<lambda>t. length (tr_history t)) (resourceTrackers s) =
         map (\<lambda>t. length (objectElements (get ''history'' t))) (objectElements (get ''resourceTrackers'' j))"
proof -
  from validate_shape[OF assms] obtain w4 where
    "resourceTrackers s = fst (mapArrayW (validateTracker E) (get ''resourceTrackers'' j) [] w4)"
    by auto
  then show ?thesis
    by (simp add: mapArrayW_def objectElements_def map_mapFilterW[OF validateTracker_history]
        split: option.splits json.splits)
qed

section \<open>Properties of the mutators and of the validator on concrete inputs\<close>

lemma commitAt_preserves:
  assumes "list_all P (sessionHistory h)"
    and "\<And>s. nth_opt (sessionHistory h) idx = Some s \<Longrightarrow> P s \<Longrightarrow> P (fst (f s w))"
  shows "list_all P (sessionHistory (fst (commitAt idx f (h, w))))"
proof (cases "nth_opt (sessionHistory h) idx")
  case None
  then show ?thesis
    using assms(1) by (simp add: commitAt_def updateHistoryAt_def applyUpdater_def mutator_def)
next
  case (Some s)
  then have "s \<in> set (sessionHistory h)"
    by (auto simp: nth_opt_def split: if_splits)
  with assms(1) have "P s" by (simp add: list_all_iff)
  with assms(2)[OF Some] have new: "P (fst (f s w))" .
  show ?thesis
    using Some assms(1) new
    by (auto simp: commitAt_def updateHistoryAt_def applyUpdater_def mutator_def Let_def
        list_all_iff dest!: in_set_dropD in_set_takeD)
qed

lemma length_pushRoll: "length (pushRoll r prev) = min 20 (Suc (length prev))"
  by (simp add: pushRoll_def min_def)

lemma withinBounds_addPlayLogEntry:
  "withinBounds s \<Longrightarrow> withinBounds (fst (addPlayLogEntry_updater E c t k None s w))"
  by (simp add: addPlayLogEntry_updater_def withinBounds_def randomUUID_def nowISO_def Let_def)

lemma withinBounds_pushRoll:
  "withinBounds s \<Longrightarrow> withinBounds (setDiceRollHistory_updater (pushRoll r) s)"
  by (simp add: setDiceRollHistory_updater_def withinBounds_def length_pushRoll)

lemma handleRollDice_bounds:
  assumes "list_all withinBounds (sessionHistory (fst a))"
  shows "list_all withinBounds (sessionHistory (fst (handleRollDice E p cmd a)))"
proof -
  obtain h w where a: "a = (h, w)" by (cases a)
  have log: "\<And>i c t k h' w'. list_all withinBounds (sessionHistory h') \<Longrightarrow>
      list_all withinBounds (sessionHistory (fst (addPlayLogEntry E i c t k None (h', w'))))"
    unfolding addPlayLogEntry_def
    by (rule commitAt_preserves) (simp_all add: withinBounds_addPlayLogEntry)
  have roll: "\<And>i r w'. list_all withinBounds (sessionHistory (fst (setDiceRollHistory i (pushRoll r) (h, w'))))"
    unfolding setDiceRollHistory_def
    by (rule commitAt_preserves) (use assms a in \<open>simp_all add: withinBounds_pushRoll\<close>)
  show ?thesis
  proof (cases "trim cmd = []")
    case True
    then show ?thesis using assms a by (simp add: handleRollDice_def log)
  next
    case False
    show ?thesis
    proof (cases "p cmd")
      case (Inl err)
      with False show ?thesis using assms a by (simp add: handleRollDice_def log)
    next
      case (Inr r)
      obtain c rs t where r: "r = (c, rs, t)" by (cases r)
      show ?thesis
        using False Inr r a
        by (simp add: handleRollDice_def Let_def case_prod_beta randomUUID_def nowISO_def)
           (metis log roll prod.collapse)
    qed
  qed
qed

lemma reflectedTrackers_bounds:
  "list_all (\<lambda>t. length (tr_history t) \<le> 50) ts \<Longrightarrow>
   list_all (\<lambda>t. length (tr_history t) \<le> 50) (reflectedTrackers e i v ts)"
  by (induction ts) (auto simp: reflectedTrackers_def)

lemma handleReflectTrackerChange_bounds:
  assumes "list_all withinBounds (sessionHistory (fst a))"
  shows "list_all withinBounds (sessionHistory (fst (handleReflectTrackerChange E i v reason a)))"
proof -
  obtain h w where a: "a = (h, w)" by (cases a)
  show ?thesis
  proof (cases "currentSessionData h")
    case None
    then show ?thesis using assms a by (simp add: handleReflectTrackerChange_def)
  next
    case (Some cur)
    then have "cur \<in> set (sessionHistory h)"
      by (auto simp: currentSessionData_def nth_opt_def split: if_splits)
    with assms a have cb: "withinBounds cur" by (simp add: list_all_iff)
    then have tb: "\<And>e. list_all (\<lambda>t. length (tr_history t) \<le> 50)
                      (reflectedTrackers e i v (resourceTrackers cur))"
      by (simp add: withinBounds_def reflectedTrackers_bounds)
    have log: "\<And>e c t k w'. list_all withinBounds (sessionHistory (fst
        (addPlayLogEntry E (currentSessionIndex h) c t k
           (Some (reflectedTrackers e i v (resourceTrackers cur))) (h, w'))))"
      unfolding addPlayLogEntry_def
      by (rule commitAt_preserves)
         (use assms a tb in \<open>simp_all add: addPlayLogEntry_updater_def withinBounds_def
            randomUUID_def nowISO_def Let_def\<close>)
    have set': "\<And>e w'. list_all withinBounds (sessionHistory (fst
        (setResourceTrackers (currentSessionIndex h)
           (\<lambda>prev. reflectedTrackers e i v (resourceTrackers cur)) (h, w'))))"
      unfolding setResourceTrackers_def
      by (rule commitAt_preserves)
         (use assms a tb in \<open>simp_all add: setResourceTrackers_updater_def withinBounds_def\<close>)
    show ?thesis
    proof (cases "find (\<lambda>t. tr_id t = i) (resourceTrackers cur)")
      case None
      with Some show ?thesis using assms a by (simp add: handleReflectTrackerChange_def)
    next
      case (Some t)
      with \<open>currentSessionData h = Some cur\<close> show ?thesis
        using assms a log set'
        by (auto simp: handleReflectTrackerChange_def Let_def case_prod_beta randomUUID_def nowISO_def)
    qed
  qed
qed

lemma handleReflect_bounds:
  assumes "list_all withinBounds (sessionHistory (fst a))"
  shows "list_all withinBounds (sessionHistory (fst (handleReflect E t sv sr a)))"
  using assms by (simp add: handleReflect_def Let_def handleReflectTrackerChange_bounds)

lemmas validator_simps =
  validateAndMigrateData_def getInitialSessionData_def randomUUID_def nowISO_def
  mapArrayW_def mapFilterW_def mapArrayE_def validatePackage_def validateCharacterSheet_def
  stringOr_def numberOr_def stringOrUUID_def timestampOrNow_def oneOf_def truthyOrUUID_def
  orElse_def getOpt_def isNonNullObject_def
  validateLogEntry_def validateCustomField_def validateTableEntry_def validateTable_def
  validateTrackerHistoryEntry_def validateTracker_def validateDiceRoll_def
  validateCustomFieldTemplate_def validateRulebookSection_def validatePackageTableEntry_def
  validatePackageTable_def validateResourceTrackerTemplate_def
  spread_def withoutKeys_def packageKeys_def templateKeys_def
  DEFAULT_manifest_def DEFAULT_characterSheetTemplate_scalars_def
  initialCharacterSheetValues_def initialDefaultTheme_def List.map_filter_def

text \<open>
  C4.  The validator does not truncate: from a session file whose \<open>diceRollHistory\<close> holds
  21 rolls it returns a state with 21 rolls.
\<close>

theorem C4_validator_keeps_21_rolls:
  "(case validateAndMigrateData exampleEnv
           (JObj [(''diceRollHistory'',
                   JArr [JObj [], JObj [], JObj [], JObj [], JObj [], JObj [], JObj [],
                         JObj [], JObj [], JObj [], JObj [], JObj [], JObj [], JObj [],
                         JObj [], JObj [], JObj [], JObj [], JObj [], JObj [], JObj []])]) 0 of
      Inr (s, w) \<Rightarrow> length (diceRollHistory s) = 21 \<and> \<not> withinBounds s
    | Inl err \<Rightarrow> False)"
  by (simp add: validator_simps withinBounds_def Let_def)

text \<open>
  C1.  A \<open>null\<close> element in an array of the embedded package makes the validator raise:
  \<open>section.id\<close> is read from \<open>null\<close>.  The session's own arrays test their elements
  (\<open>typeof entry === 'object' && entry !== null\<close>, \<open>cf?.id\<close>); the package's arrays do not.
\<close>

theorem C1_validator_raises:
  "validateAndMigrateData E
     (JObj [(''loadedGameDataPackage'', JObj [(''rulebookSections'', JArr [JNull])])]) w
   = Inl TypeError"
  by (simp add: validator_simps Let_def)

theorem C1_validator_raises_witness:
  "validateAndMigrateData exampleEnv
     (JObj [(''loadedGameDataPackage'', JObj [(''rulebookSections'', JArr [JNull])])]) 0
   = Inl TypeError"
  by (rule C1_validator_raises)

text \<open>
  C10.  The theme of the input is kept whenever it is a string: \<open>banana\<close>, which is none
  of the four themes, comes out of the validator unchanged.  The entry type, the colour key
  and the template type are tested against their allowed sets; the theme is not.
\<close>

theorem C10_theme_not_checked:
  "(case validateAndMigrateData E (JObj [(''theme'', JStr ''banana'')]) w of
      Inr (s, w') \<Rightarrow> theme s = ''banana''
    | Inl err \<Rightarrow> False)
   \<and> ''banana'' \<notin> set themeOptions"
  by (simp add: validator_simps Let_def themeOptions_def)

theorem C10_theme_not_checked_witness:
  "(case validateAndMigrateData exampleEnv (JObj [(''theme'', JStr ''banana'')]) 0 of
      Inr (s, w') \<Rightarrow> theme s = ''banana''
    | Inl err \<Rightarrow> False)
   \<and> ''banana'' \<notin> set themeOptions"
  by (rule C10_theme_not_checked)

section \<open>Properties of loading a game-data package\<close>

lemma map_mapW:
  assumes "\<And>x w. h (fst (f x w)) = g x"
  shows "map h (fst (mapW f xs w)) = map g xs"
  by (induction xs arbitrary: w) (simp_all add: case_prod_beta Let_def assms)

text \<open>
  C7.  A template whose \<open>statsLabel\<close> is the empty string passes the validator, and
  loading it sets the sheet's label to the application default, not to the template's.
\<close>

theorem C7_empty_statsLabel_counterexample:
  "(case validatePackage exampleEnv
           (JObj [(''manifest'', JObj [(''gameTitle'', JStr ''G'')]),
                  (''characterSheetTemplate'', JObj [(''statsLabel'', JStr [])])]) 0 of
      Inr (pkg, w) \<Rightarrow>
        map_of (cst_other (gp_characterSheetTemplate pkg)) ''statsLabel'' = Some (JStr [])
        \<and> cs_statsLabel (characterSheet
             (fst (setLoadedGameDataPackage_updater exampleEnv (Some pkg) (Some ''L'') freshSession w)))
           = JStr defaultStatsLabel
    | Inl err \<Rightarrow> False)
   \<and> JStr defaultStatsLabel \<noteq> JStr []"
  by (simp add: validator_simps Let_def setLoadedGameDataPackage_updater_def defaultStatsLabel_def
      freshSession_def)

lemma trackerFromTemplate_fields:
  "(\<lambda>t. (tr_name t, tr_value t, tr_history t)) (fst (trackerFromTemplate E x w)) =
   (rtt_name x, rtt_initialValue x, [])"
  by (simp add: trackerFromTemplate_def randomUUID_def)

lemma fieldFromTemplate_fields:
  "(\<lambda>f. (cf_fieldName f, cf_fieldValue f)) (fst (fieldFromTemplate E x w)) =
   (cft_label x, if cft_type x = ''number'' then ''0'' else [])"
  by (simp add: fieldFromTemplate_def randomUUID_def)

lemma jsonCopyTable_id:
  assumes "validPackageTable t"
  shows "jsonCopyTable t = t"
proof -
  have "map jsonCopyEntry (rt_entries t) = rt_entries t"
    by (rule map_idI)
       (use assms in \<open>auto simp: validPackageTable_def validPackageTableEntry_def list_all_iff
            jsonCopyEntry_def stringifiable_def split: option.splits\<close>)
  then show ?thesis
    using assms by (simp add: jsonCopyTable_def validPackageTable_def stringifiable_def)
qed

text \<open>
  C7, amended.  Loading a package replaces the custom fields, the resource trackers and the
  tables only when the session has none of them, and then fills them from the package's
  templates (field names and values from the field templates, tracker names and initial
  values from the tracker templates with empty histories, the tables copied through JSON,
  which leaves the tables of a package without numbers beyond the doubles as they are).  The
  sheet's \<open>statsLabel\<close> is always set: to the template's \<open>statsLabel\<close> when that is truthy,
  else to the application default.  Clearing (\<open>None\<close>) resets the label, the custom fields,
  the tables and the trackers to the application defaults and nulls the package and the
  load id.  Both leave every other field of the session as it was.
\<close>

theorem C7_load_package_frame:
  "(cs_customFields (characterSheet s) \<noteq> [] \<longrightarrow>
      cs_customFields (characterSheet (fst (setLoadedGameDataPackage_updater E (Some pkg) lid s w)))
        = cs_customFields (characterSheet s))
   \<and> (resourceTrackers s \<noteq> [] \<longrightarrow>
      resourceTrackers (fst (setLoadedGameDataPackage_updater E (Some pkg) lid s w)) = resourceTrackers s)
   \<and> (tables s \<noteq> [] \<longrightarrow>
      tables (fst (setLoadedGameDataPackage_updater E (Some pkg) lid s w)) = tables s)
   \<and> (cs_customFields (characterSheet s) = [] \<longrightarrow>
      map (\<lambda>f. (cf_fieldName f, cf_fieldValue f))
          (cs_customFields (characterSheet (fst (setLoadedGameDataPackage_updater E (Some pkg) lid s w))))
        = map (\<lambda>t. (cft_label t, if cft_type t = ''number'' then ''0'' else []))
              (cst_customFieldTemplates (gp_characterSheetTemplate pkg)))
   \<and> (resourceTrackers s = [] \<longrightarrow>
      map (\<lambda>t. (tr_name t, tr_value t, tr_history t))
          (resourceTrackers (fst (setLoadedGameDataPackage_updater E (Some pkg) lid s w)))
        = map (\<lambda>t. (rtt_name t, rtt_initialValue t, [])) (gp_resourceTrackerTemplates pkg))
   \<and> (tables s = [] \<longrightarrow>
      tables (fst (setLoadedGameDataPackage_updater E (Some pkg) lid s w))
        = map jsonCopyTable (gp_randomTables pkg)
      \<and> (list_all validPackageTable (gp_randomTables pkg) \<longrightarrow>
          tables (fst (setLoadedGameDataPackage_updater E (Some pkg) lid s w)) = gp_randomTables pkg))
   \<and> cs_statsLabel (characterSheet (fst (setLoadedGameDataPackage_updater E (Some pkg) lid s w)))
        = orElse (map_of (cst_other (gp_characterSheetTemplate pkg)) ''statsLabel'')
                 (JStr defaultStatsLabel)
   \<and> loadedGameDataPackage (fst (setLoadedGameDataPackage_updater E (Some pkg) lid s w)) = Some pkg
   \<and> gameDataPackageLoadId (fst (setLoadedGameDataPackage_updater E (Some pkg) lid s w)) \<noteq> None
   \<and> fst (setLoadedGameDataPackage_updater E None lid s w) =
        s\<lparr>loadedGameDataPackage := None, gameDataPackageLoadId := None,
          characterSheet := (characterSheet s)\<lparr>cs_statsLabel := JStr defaultStatsLabel,
                                                cs_customFields := []\<rparr>,
          resourceTrackers := [], tables := []\<rparr>
   \<and> (\<forall>g\<in>{Some pkg, None}.
        sessionId (fst (setLoadedGameDataPackage_updater E g lid s w)) = sessionId s
      \<and> playLogEntries (fst (setLoadedGameDataPackage_updater E g lid s w)) = playLogEntries s
      \<and> playLogTitle (fst (setLoadedGameDataPackage_updater E g lid s w)) = playLogTitle s
      \<and> diceRollHistory (fst (setLoadedGameDataPackage_updater E g lid s w)) = diceRollHistory s
      \<and> theme (fst (setLoadedGameDataPackage_updater E g lid s w)) = theme s
      \<and> cs_name (characterSheet (fst (setLoadedGameDataPackage_updater E g lid s w)))
          = cs_name (characterSheet s)
      \<and> cs_image (characterSheet (fst (setLoadedGameDataPackage_updater E g lid s w)))
          = cs_image (characterSheet s)
      \<and> cs_stats (characterSheet (fst (setLoadedGameDataPackage_updater E g lid s w)))
          = cs_stats (characterSheet s))"
proof -
  have fields: "\<And>w. map (\<lambda>f. (cf_fieldName f, cf_fieldValue f))
        (fst (mapW (fieldFromTemplate E) (cst_customFieldTemplates (gp_characterSheetTemplate pkg)) w))
      = map (\<lambda>t. (cft_label t, if cft_type t = ''number'' then ''0'' else []))
            (cst_customFieldTemplates (gp_characterSheetTemplate pkg))"
    by (rule map_mapW) (rule fieldFromTemplate_fields)
  have trackers: "\<And>w. map (\<lambda>t. (tr_name t, tr_value t, tr_history t))
        (fst (mapW (trackerFromTemplate E) (gp_resourceTrackerTemplates pkg) w))
      = map (\<lambda>t. (rtt_name t, rtt_initialValue t, [])) (gp_resourceTrackerTemplates pkg)"
    by (rule map_mapW) (rule trackerFromTemplate_fields)
  have copy: "list_all validPackageTable (gp_randomTables pkg) \<longrightarrow>
      map jsonCopyTable (gp_randomTables pkg) = gp_randomTables pkg"
    by (auto simp: list_all_iff jsonCopyTable_id intro!: map_idI)
  show ?thesis
    using fields trackers copy
    by (simp add: setLoadedGameDataPackage_updater_def Let_def case_prod_beta
        initialCharacterSheetValues_def loadIdOrFresh_def randomUUID_def
        split: option.splits)
qed

section \<open>Properties of a rejected package\<close>

lemma map_of_spread:
  "map_of (spread base add) k =
     (case map_of (rev add) k of Some v \<Rightarrow> Some v | None \<Rightarrow> map_of base k)"
proof (induction add arbitrary: base)
  case Nil
  show ?case by (simp add: spread_def)
next
  case (Cons kv add)
  have "spread base (kv # add) = spread (AList.update (fst kv) (snd kv) base) add"
    by (simp add: spread_def)
  then show ?case
    by (cases kv) (auto simp: Cons.IH update_conv' map_add_def split: option.splits)
qed

lemma distinct_spread:
  "distinct (map fst base) \<Longrightarrow> distinct (map fst (spread base add))"
proof (induction add arbitrary: base)
  case Nil
  then show ?case by (simp add: spread_def)
next
  case (Cons kv add)
  have "spread base (kv # add) = spread (AList.update (fst kv) (snd kv) base) add"
    by (simp add: spread_def)
  with Cons show ?case by (simp add: distinct_update)
qed

lemma map_of_rev_distinct:
  "distinct (map fst xs) \<Longrightarrow> map_of (rev xs) k = map_of xs k"
proof (induction xs)
  case Nil
  show ?case by simp
next
  case (Cons x xs)
  then have "map_of (rev xs) k = map_of xs k" by simp
  moreover have "fst x \<notin> fst ` set xs" using Cons.prems by simp
  then have "map_of xs (fst x) = None" by (simp add: map_of_eq_None_iff)
  ultimately show ?case
    by (cases x) (auto simp: map_add_def split: option.splits)
qed

lemma map_of_ownEntries_JObj: "map_of (ownEntries (JObj kvs)) k = get k (JObj kvs)"
  by (simp add: map_of_spread split: option.splits)

lemma map_of_rev_ownEntries_JObj: "map_of (rev (ownEntries (JObj kvs))) k = get k (JObj kvs)"
  using map_of_rev_distinct[OF distinct_spread[of "[]" kvs], of k] map_of_ownEntries_JObj[of kvs k]
  by simp

lemma wrapped_package:
  assumes "validateAndMigrateData E (JObj [(''loadedGameDataPackage'', j)]) w = Inr (v, w1)"
    and "truthy j" and "typeofObject j"
  shows "\<exists>p w''. validatePackage E j (Suc (Suc w)) = Inr (p, w'') \<and> loadedGameDataPackage v = Some p"
  using assms
  unfolding validateAndMigrateData_def getInitialSessionData_fields
  by (auto simp: Let_def case_prod_beta mapArrayW_def validateCharacterSheet_def orElse_def
      stringOr_def stringOrUUID_def randomUUID_def initialCharacterSheetValues_def
      split: sum.splits)

lemma validatePackage_manifest:
  assumes "validatePackage E j w = Inr (p, w')"
  shows "gp_manifest p = spread DEFAULT_manifest (ownEntries (orElse (get ''manifest'' j) (JObj [])))"
  using assms
  by (auto simp: validatePackage_def Let_def split: sum.splits)

lemma empty_gameTitle_rejected:
  assumes "get ''manifest'' j = Some (JObj m)"
    and "get ''gameTitle'' (JObj m) = Some (JStr [])"
    and "truthy j" and "typeofObject j"
  shows "\<exists>err. validatedPackageOf E (Some j) w = Inl err"
proof (cases "validateAndMigrateData E (JObj [(''loadedGameDataPackage'', j)]) w")
  case (Inl e)
  then show ?thesis by (simp add: validatedPackageOf_def)
next
  case (Inr r)
  obtain v w1 where r: "r = (v, w1)" by (cases r)
  from wrapped_package[OF Inr[unfolded r] assms(3,4)] obtain p w''
    where p: "validatePackage E j (Suc (Suc w)) = Inr (p, w'')" and l: "loadedGameDataPackage v = Some p"
    by blast
  have "gp_manifest p = spread DEFAULT_manifest (ownEntries (JObj m))"
    using validatePackage_manifest[OF p] assms(1) by (simp add: orElse_def)
  then have "map_of (gp_manifest p) ''gameTitle'' = Some (JStr [])"
    using assms(2) by (simp add: map_of_spread[of DEFAULT_manifest] map_of_rev_ownEntries_JObj
        del: ownEntries.simps)
  then show ?thesis
    using Inr r l by (simp add: validatedPackageOf_def truthyOpt_def)
qed

text \<open>
  C5.  After a package with title \<open>G\<close> has been loaded, loading a package whose manifest
  has an empty \<open>gameTitle\<close> is rejected, and the rejection clears the loaded package and its
  load id: neither remains at its pre-call value.
\<close>

theorem C5_rejection_clears_package:
  "(let a1 = fst (handleLoadGameDataPackageFile exampleEnv
                    (Some (JObj [(''manifest'', JObj [(''gameTitle'', JStr ''G'')])]))
                    (resetTo freshSession, 1));
        r = handleLoadGameDataPackageFile exampleEnv
              (Some (JObj [(''manifest'', JObj [(''gameTitle'', JStr [])])])) a1
    in map_option gameDataPackageLoadId (currentSessionData (fst a1)) = Some (Some ''id-5'')
     \<and> map_option loadedGameDataPackage (currentSessionData (fst a1)) \<noteq> Some None
     \<and> snd r = Some InvalidPackage
     \<and> map_option gameDataPackageLoadId (currentSessionData (fst (fst r))) = Some None
     \<and> map_option loadedGameDataPackage (currentSessionData (fst (fst r))) = Some None)"
  by (simp add: handleLoadGameDataPackageFile_def validatedPackageOf_def validator_simps
      setLoadedGameDataPackage_def setLoadedGameDataPackage_updater_def commitAt_def
      updateHistoryAt_def applyUpdater_def mutator_def nth_opt_def currentSessionData_def
      resetTo_def freshSession_def loadIdOrFresh_def truthyOpt_def MAX_HISTORY_SIZE_def
      exampleEnv_def showNat.simps Let_def)

text \<open>
  C5, amended.  Loading a package file whose manifest has an empty \<open>gameTitle\<close> is
  rejected with an alert, and the handler then clears the package in one new history step:
  the new current snapshot has no loaded package and no load id, its stats label, custom
  fields, tables and resource trackers are reset to the application defaults, and its other
  fields are those of the pre-call snapshot, which stays in the history right before it.
\<close>

theorem C5_empty_gameTitle_rejected:
  assumes "get ''manifest'' j = Some (JObj m)"
    and "get ''gameTitle'' (JObj m) = Some (JStr [])"
    and "truthy j" and "typeofObject j"
    and "currentSessionData h = Some cur"
    and "sessionId cur \<noteq> []"
  shows "snd (handleLoadGameDataPackageFile E (Some j) (h, w)) \<noteq> None
       \<and> currentSessionData (fst (fst (handleLoadGameDataPackageFile E (Some j) (h, w)))) =
           Some (cur\<lparr>loadedGameDataPackage := None, gameDataPackageLoadId := None,
                     characterSheet := (characterSheet cur)\<lparr>cs_statsLabel := JStr defaultStatsLabel,
                                                              cs_customFields := []\<rparr>,
                     resourceTrackers := [], tables := []\<rparr>)
       \<and> sessionHistory (fst (fst (handleLoadGameDataPackageFile E (Some j) (h, w)))) =
           drop (currentSessionIndex h + 2 - MAX_HISTORY_SIZE)
             (take (currentSessionIndex h + 1) (sessionHistory h) @
              [cur\<lparr>loadedGameDataPackage := None, gameDataPackageLoadId := None,
                    characterSheet := (characterSheet cur)\<lparr>cs_statsLabel := JStr defaultStatsLabel,
                                                             cs_customFields := []\<rparr>,
                    resourceTrackers := [], tables := []\<rparr>])"
proof -
  from empty_gameTitle_rejected[OF assms(1-4)] obtain err
    where rej: "validatedPackageOf E (Some j) w = Inl err" by blast
  let ?f = "setLoadedGameDataPackage_updater E None None"
  have cleared: "fst (?f cur w) =
      cur\<lparr>loadedGameDataPackage := None, gameDataPackageLoadId := None,
          characterSheet := (characterSheet cur)\<lparr>cs_statsLabel := JStr defaultStatsLabel,
                                                   cs_customFields := []\<rparr>,
          resourceTrackers := [], tables := []\<rparr>"
    by (simp add: setLoadedGameDataPackage_updater_def initialCharacterSheetValues_def)
  have sid: "sessionId (fst (?f cur w)) \<noteq> []"
    using assms(6) by (simp add: cleared)
  have res: "handleLoadGameDataPackageFile E (Some j) (h, w) =
      (commitAt (currentSessionIndex h) ?f (h, w), Some err)"
    by (simp add: handleLoadGameDataPackageFile_def rej setLoadedGameDataPackage_def)
  show ?thesis
    using commitAt_current(1,3)[where f="?f" and w=w, OF assms(5) sid] unfolding res cleared by simp
qed

theorem C5_empty_gameTitle_rejected_witness:
  "snd (handleLoadGameDataPackageFile exampleEnv
          (Some (JObj [(''manifest'', JObj [(''gameTitle'', JStr [])])]))
          (resetTo (freshSession\<lparr>tables := [\<lparr>rt_id = JStr ''t'', rt_name = JStr ''Loot'',
                                              rt_diceCommand = JStr [], rt_entries = []\<rparr>]\<rparr>), 1))
     \<noteq> None
   \<and> map_option tables (currentSessionData (fst (fst (handleLoadGameDataPackageFile exampleEnv
          (Some (JObj [(''manifest'', JObj [(''gameTitle'', JStr [])])]))
          (resetTo (freshSession\<lparr>tables := [\<lparr>rt_id = JStr ''t'', rt_name = JStr ''Loot'',
                                              rt_diceCommand = JStr [], rt_entries = []\<rparr>]\<rparr>), 1)))))
     = Some []
   \<and> length (sessionHistory (fst (fst (handleLoadGameDataPackageFile exampleEnv
          (Some (JObj [(''manifest'', JObj [(''gameTitle'', JStr [])])]))
          (resetTo (freshSession\<lparr>tables := [\<lparr>rt_id = JStr ''t'', rt_name = JStr ''Loot'',
                                              rt_diceCommand = JStr [], rt_entries = []\<rparr>]\<rparr>), 1))))) = 2"
proof -
  let ?s = "freshSession\<lparr>tables := [\<lparr>rt_id = JStr ''t'', rt_name = JStr ''Loot'',
                                       rt_diceCommand = JStr [], rt_entries = []\<rparr>]\<rparr>"
  let ?j = "JObj [(''manifest'', JObj [(''gameTitle'', JStr [])])]"
  have 1: "get ''manifest'' ?j = Some (JObj [(''gameTitle'', JStr [])])" by simp
  have 2: "get ''gameTitle'' (JObj [(''gameTitle'', JStr [])]) = Some (JStr [])" by simp
  have 3: "truthy ?j" "typeofObject ?j" by simp_all
  have 4: "currentSessionData (resetTo ?s) = Some ?s"
    by (simp add: currentSessionData_def resetTo_def nth_opt_def)
  have 5: "sessionId ?s \<noteq> []" by (simp add: freshSession_id)
  from C5_empty_gameTitle_rejected[OF 1 2 3 4 5, of exampleEnv 1] show ?thesis
    by (simp add: resetTo_def MAX_HISTORY_SIZE_def)
qed

theorem C7_load_package_frame_witness:
  "map (\<lambda>t. (tr_name t, tr_value t, tr_history t))
     (resourceTrackers (fst (setLoadedGameDataPackage_updater exampleEnv (Some examplePackage)
                               (Some ''L'') freshSession 5)))
     = [(JStr ''HP'', Finite 10, [])]
   \<and> map (\<lambda>f. (cf_fieldName f, cf_fieldValue f))
     (cs_customFields (characterSheet (fst (setLoadedGameDataPackage_updater exampleEnv
                               (Some examplePackage) (Some ''L'') freshSession 5))))
     = [(JStr ''Gold'', ''0'')]
   \<and> tables (fst (setLoadedGameDataPackage_updater exampleEnv (Some examplePackage)
                     (Some ''L'') freshSession 5))
     = gp_randomTables examplePackage
   \<and> resourceTrackers (fst (setLoadedGameDataPackage_updater exampleEnv (Some examplePackage)
                               (Some ''L'') savedSession 5))
     = resourceTrackers savedSession
   \<and> cs_customFields (characterSheet (fst (setLoadedGameDataPackage_updater exampleEnv
                               (Some examplePackage) (Some ''L'') savedSession 5)))
     = cs_customFields (characterSheet savedSession)
   \<and> tables (fst (setLoadedGameDataPackage_updater exampleEnv (Some examplePackage)
                     (Some ''L'') savedSession 5))
     = tables savedSession
   \<and> cs_statsLabel (characterSheet (fst (setLoadedGameDataPackage_updater exampleEnv
                               (Some examplePackage) (Some ''L'') savedSession 5)))
     = JStr ''Stats''
   \<and> resourceTrackers (fst (setLoadedGameDataPackage_updater exampleEnv None (Some ''L'')
                               savedSession 5)) = []
   \<and> gameDataPackageLoadId (fst (setLoadedGameDataPackage_updater exampleEnv None (Some ''L'')
                               savedSession 5)) = None"
proof -
  have e: "resourceTrackers freshSession = []" "tables freshSession = []"
    "cs_customFields (characterSheet freshSession) = []"
    by (simp_all add: freshSession_def getInitialSessionData_fields initialCharacterSheetValues_def)
  have t: "resourceTrackers savedSession \<noteq> []" "tables savedSession \<noteq> []"
    "cs_customFields (characterSheet savedSession) \<noteq> []"
    by (simp_all add: savedSession_def)
  have v: "list_all validPackageTable (gp_randomTables examplePackage)"
    by (simp add: examplePackage_def validPackageTable_def validPackageTableEntry_def
        truthyOrEmpty_def stringifiable_def)
  from C7_load_package_frame[of freshSession exampleEnv examplePackage "Some ''L''" 5]
  have 1: "map (\<lambda>t. (tr_name t, tr_value t, tr_history t))
     (resourceTrackers (fst (setLoadedGameDataPackage_updater exampleEnv (Some examplePackage)
                               (Some ''L'') freshSession 5)))
     = [(JStr ''HP'', Finite 10, [])]"
    and 2: "map (\<lambda>f. (cf_fieldName f, cf_fieldValue f))
     (cs_customFields (characterSheet (fst (setLoadedGameDataPackage_updater exampleEnv
                               (Some examplePackage) (Some ''L'') freshSession 5))))
     = [(JStr ''Gold'', ''0'')]"
    using e by (simp_all add: examplePackage_def)
  from C7_load_package_frame[of freshSession exampleEnv examplePackage "Some ''L''" 5] e v
  have 3: "tables (fst (setLoadedGameDataPackage_updater exampleEnv (Some examplePackage)
                     (Some ''L'') freshSession 5))
     = gp_randomTables examplePackage"
    by blast
  from C7_load_package_frame[of savedSession exampleEnv examplePackage "Some ''L''" 5]
  have 4: "resourceTrackers (fst (setLoadedGameDataPackage_updater exampleEnv (Some examplePackage)
                               (Some ''L'') savedSession 5))
     = resourceTrackers savedSession"
    and 5: "cs_customFields (characterSheet (fst (setLoadedGameDataPackage_updater exampleEnv
                               (Some examplePackage) (Some ''L'') savedSession 5)))
     = cs_customFields (characterSheet savedSession)"
    and 6: "tables (fst (setLoadedGameDataPackage_updater exampleEnv (Some examplePackage)
                     (Some ''L'') savedSession 5))
     = tables savedSession"
    and 7: "cs_statsLabel (characterSheet (fst (setLoadedGameDataPackage_updater exampleEnv
                               (Some examplePackage) (Some ''L'') savedSession 5)))
     = JStr ''Stats''"
    and 8: "resourceTrackers (fst (setLoadedGameDataPackage_updater exampleEnv None (Some ''L'')
                               savedSession 5)) = []"
    and 9: "gameDataPackageLoadId (fst (setLoadedGameDataPackage_updater exampleEnv None (Some ''L'')
                               savedSession 5)) = None"
    using t by (simp_all add: examplePackage_def orElse_def)
  from 1 2 3 4 5 6 7 8 9 show ?thesis by simp
qed

section \<open>Properties of a tracker adjustment\<close>



lemma reflected_encoding_differs:
  assumes "find (\<lambda>t. tr_id t = i) ts = Some t"
    and "th_id e \<notin> th_id ` set (tr_history t)"
  shows "reparse (JArr (map encResourceTracker (reflectedTrackers e i v ts)))
           \<noteq> reparse (JArr (map encResourceTracker ts))"
proof
  assume eq: "reparse (JArr (map encResourceTracker (reflectedTrackers e i v ts)))
                = reparse (JArr (map encResourceTracker ts))"
  from assms(1) obtain j where j: "j < length ts" "tr_id (ts ! j) = i" "t = ts ! j"
    by (auto simp: find_Some_iff)
  from eq have "map (\<lambda>x. reparse (encResourceTracker x)) (reflectedTrackers e i v ts)
                  = map (\<lambda>x. reparse (encResourceTracker x)) ts"
    by (simp add: comp_def)
  then have "map (\<lambda>x. reparse (encResourceTracker x)) (reflectedTrackers e i v ts) ! j
                  = map (\<lambda>x. reparse (encResourceTracker x)) ts ! j"
    by simp
  with j have "reparse (encResourceTracker (t\<lparr>tr_value := v, tr_history := e # take 49 (tr_history t)\<rparr>))
                  = reparse (encResourceTracker t)"
    by (simp add: reflectedTrackers_def)
  then have hs: "map (\<lambda>x. reparse (encTrackerHistoryEntry x)) (e # take 49 (tr_history t))
                  = map (\<lambda>x. reparse (encTrackerHistoryEntry x)) (tr_history t)"
    by (simp add: encResourceTracker_def comp_def)
  show False
  proof (cases "tr_history t")
    case Nil
    with hs show False by simp
  next
    case (Cons x xs)
    with hs have "reparse (encTrackerHistoryEntry e) = reparse (encTrackerHistoryEntry x)"
      by simp
    then have "th_id e = th_id x"
      by (simp add: encTrackerHistoryEntry_def)
    with assms(2) Cons show False by auto
  qed
qed

lemma handleReflectTrackerChange_result:
  assumes "currentSessionData h = Some cur"
    and "sessionId cur \<noteq> []"
    and "find (\<lambda>t. tr_id t = i) (resourceTrackers cur) = Some t"
    and "strictNotEqual v (tr_value t) \<or> trim reason \<noteq> []
         \<or> uuid E w \<notin> th_id ` set (tr_history t)"
    and "logged = \<lparr>th_id = uuid E w, th_timestamp = clock E (w + 1),
                   th_change = jsMinus v (tr_value t), th_previousValue = tr_value t,
                   th_newValue = v, th_reason = trim reason\<rparr>"
    and "new = cur\<lparr>playLogEntries :=
                     playLogEntries cur @
                       (if strictNotEqual v (tr_value t) \<or> trim reason \<noteq> [] then
                          [\<lparr>le_id = uuid E (w + 2),
                            le_content =
                              logMessage E (jsString E (orElse (Some (tr_name t)) (JStr unnamedTracker)))
                                (tr_value t) v (jsMinus v (tr_value t)) (trim reason),
                            le_type = ''normal'', le_colorKey = ''default'',
                            le_timestamp = clock E (w + 3)\<rparr>]
                        else []),
                   resourceTrackers := reflectedTrackers logged i v (resourceTrackers cur)\<rparr>"
  shows "sessionHistory (fst (handleReflectTrackerChange E i v reason (h, w))) =
           drop (currentSessionIndex h + 2 - MAX_HISTORY_SIZE)
                (take (currentSessionIndex h + 1) (sessionHistory h) @ [new])"
    and "currentSessionData (fst (handleReflectTrackerChange E i v reason (h, w))) = Some new"
proof -
  have both: "sessionHistory (fst (handleReflectTrackerChange E i v reason (h, w))) =
           drop (currentSessionIndex h + 2 - MAX_HISTORY_SIZE)
                (take (currentSessionIndex h + 1) (sessionHistory h) @ [new])
       \<and> currentSessionData (fst (handleReflectTrackerChange E i v reason (h, w))) = Some new"
  proof (cases "strictNotEqual v (tr_value t) \<or> trim reason \<noteq> []")
    case True
    let ?f = "addPlayLogEntry_updater E
                (logMessage E (jsString E (orElse (Some (tr_name t)) (JStr unnamedTracker)))
                   (tr_value t) v (jsMinus v (tr_value t)) (trim reason))
                ''normal'' ''default'' (Some (reflectedTrackers logged i v (resourceTrackers cur)))"
    have step: "handleReflectTrackerChange E i v reason (h, w) =
                  commitAt (currentSessionIndex h) ?f (h, w + 2)"
      using True assms(1,3)
      by (simp add: handleReflectTrackerChange_def Let_def randomUUID_def nowISO_def
          addPlayLogEntry_def assms(5))
    have f: "fst (?f cur (w + 2)) = new"
      using True
      by (simp add: addPlayLogEntry_updater_def randomUUID_def nowISO_def Let_def assms(6)
          eval_nat_numeral)
    have sid: "sessionId (fst (?f cur (w + 2))) \<noteq> []"
      unfolding f using assms(2) by (simp add: assms(6))
    show ?thesis
      using commitAt_current(1,3)[where f="?f" and w="w + 2", OF assms(1) sid]
      unfolding step f by simp
  next
    case False
    with assms(4) have fresh: "th_id logged \<notin> th_id ` set (tr_history t)"
      by (simp add: assms(5))
    let ?f = "\<lambda>s w'. (setResourceTrackers_updater
                          (\<lambda>prev. reflectedTrackers logged i v (resourceTrackers cur)) s, w'::nat)"
    have step: "handleReflectTrackerChange E i v reason (h, w) =
                  commitAt (currentSessionIndex h) ?f (h, w + 2)"
      using False assms(1,3) reflected_encoding_differs[OF assms(3) fresh, of v]
      by (simp add: handleReflectTrackerChange_def Let_def randomUUID_def nowISO_def
          setResourceTrackers_def assms(5))
    have f: "fst (?f cur (w + 2)) = new"
      using False by (simp add: setResourceTrackers_updater_def assms(6))
    have sid: "sessionId (fst (?f cur (w + 2))) \<noteq> []"
      unfolding f using assms(2) by (simp add: assms(6))
    show ?thesis
      using commitAt_current(1,3)[where f="?f" and w="w + 2", OF assms(1) sid]
      unfolding step f by simp
  qed
  from both show "sessionHistory (fst (handleReflectTrackerChange E i v reason (h, w))) =
           drop (currentSessionIndex h + 2 - MAX_HISTORY_SIZE)
                (take (currentSessionIndex h + 1) (sessionHistory h) @ [new])"
    by blast
  from both show "currentSessionData (fst (handleReflectTrackerChange E i v reason (h, w))) = Some new"
    by blast
qed



text \<open>Beyond \<open>2^53\<close> a difference is rounded, and the difference of equal infinities is \<open>NaN\<close>.\<close>

lemma jsMinus_rounding_examples:
  "jsMinus (Finite (- 2)) (Finite (2 ^ 53 - 1)) = Finite (- (2 ^ 53))"
  "jsMinus (Finite (1 / 2)) (Finite (1 / 4)) = Finite (1 / 4)"
  "jsMinus PosInfinity PosInfinity = NaN"
  by code_simp+




section \<open>Properties of the bounds on the recorded histories\<close>

text \<open>
  C4, amended.  The fresh default state is within the bounds (at most 20 dice rolls, at
  most 50 history records per tracker).  The commit of \<open>setDiceRollHistory\<close> that a dice
  roll makes gives a snapshot whose dice history is the new roll followed by the 19 newest
  earlier rolls: at most 20, the oldest dropped.  A tracker adjustment gives a snapshot in
  which every tracker of the adjusted id has the new record followed by its 49 newest
  earlier records: at most 50, the oldest dropped.  A dice roll and a tracker adjustment,
  through the panel or through the tracker row, keep every snapshot of the history within
  the bounds when the snapshots before were.  The validator keeps one roll and one history
  record per object element of the input arrays and drops none for length: its output is
  within the bounds only when the input is.  On an input that is falsy or not an object it
  returns the fresh default state.
\<close>

theorem C4_history_bounds:
  "withinBounds (fst (getInitialSessionData E w))
   \<and> (currentSessionData h = Some cur \<longrightarrow> sessionId cur \<noteq> [] \<longrightarrow>
        currentSessionData (fst (setDiceRollHistory (currentSessionIndex h) (pushRoll r) (h, w)))
          = Some (cur\<lparr>diceRollHistory := r # take 19 (diceRollHistory cur)\<rparr>)
        \<and> length (r # take 19 (diceRollHistory cur)) = min 20 (length (diceRollHistory cur) + 1))
   \<and> (currentSessionData h = Some cur \<longrightarrow> sessionId cur \<noteq> [] \<longrightarrow>
        find (\<lambda>t. tr_id t = i) (resourceTrackers cur) = Some t \<longrightarrow>
        (strictNotEqual v (tr_value t) \<or> trim reason \<noteq> []
           \<or> uuid E w \<notin> th_id ` set (tr_history t)) \<longrightarrow>
        map_option (\<lambda>s. map tr_history (resourceTrackers s))
          (currentSessionData (fst (handleReflectTrackerChange E i v reason (h, w))))
          = Some (map (\<lambda>x. if tr_id x = i
                            then \<lparr>th_id = uuid E w, th_timestamp = clock E (w + 1),
                                  th_change = jsMinus v (tr_value t),
                                  th_previousValue = tr_value t, th_newValue = v,
                                  th_reason = trim reason\<rparr> # take 49 (tr_history x)
                            else tr_history x)
                    (resourceTrackers cur)))
   \<and> (list_all withinBounds (sessionHistory (fst a)) \<longrightarrow>
        list_all withinBounds (sessionHistory (fst (handleRollDice E p cmd a))))
   \<and> (list_all withinBounds (sessionHistory (fst a)) \<longrightarrow>
        list_all withinBounds (sessionHistory (fst (handleReflectTrackerChange E i v reason a))))
   \<and> (list_all withinBounds (sessionHistory (fst a)) \<longrightarrow>
        list_all withinBounds (sessionHistory (fst (handleReflect E row sv sr a))))
   \<and> (validateAndMigrateData E j w = Inr (s, w') \<longrightarrow> truthy j \<longrightarrow> typeofObject j \<longrightarrow>
        length (diceRollHistory s) = length (objectElements (get ''diceRollHistory'' j))
        \<and> map (\<lambda>t. length (tr_history t)) (resourceTrackers s) =
            map (\<lambda>t. length (objectElements (get ''history'' t)))
                (objectElements (get ''resourceTrackers'' j)))
   \<and> (\<not> (truthy j \<and> typeofObject j) \<longrightarrow>
        validateAndMigrateData E j w = Inr (getInitialSessionData E w))"
proof -
  have init: "withinBounds (fst (getInitialSessionData E w))"
    by (simp add: getInitialSessionData_fields withinBounds_def)
  have roll: "currentSessionData (fst (setDiceRollHistory (currentSessionIndex h) (pushRoll r) (h, w)))
          = Some (cur\<lparr>diceRollHistory := r # take 19 (diceRollHistory cur)\<rparr>)
        \<and> length (r # take 19 (diceRollHistory cur)) = min 20 (length (diceRollHistory cur) + 1)"
    if c: "currentSessionData h = Some cur" "sessionId cur \<noteq> []"
  proof -
    let ?f = "\<lambda>s w'. (setDiceRollHistory_updater (pushRoll r) s, w'::nat)"
    have sid: "sessionId (fst (?f cur w)) \<noteq> []"
      using c(2) by (simp add: setDiceRollHistory_updater_def)
    from commitAt_current(3)[where f="?f", OF c(1) sid] show ?thesis
      by (simp add: setDiceRollHistory_def setDiceRollHistory_updater_def pushRoll_def min_def)
  qed
  have adjust: "map_option (\<lambda>s. map tr_history (resourceTrackers s))
          (currentSessionData (fst (handleReflectTrackerChange E i v reason (h, w))))
          = Some (map (\<lambda>x. if tr_id x = i
                            then \<lparr>th_id = uuid E w, th_timestamp = clock E (w + 1),
                                  th_change = jsMinus v (tr_value t),
                                  th_previousValue = tr_value t, th_newValue = v,
                                  th_reason = trim reason\<rparr> # take 49 (tr_history x)
                            else tr_history x)
                    (resourceTrackers cur))"
    if c: "currentSessionData h = Some cur" "sessionId cur \<noteq> []"
          "find (\<lambda>t. tr_id t = i) (resourceTrackers cur) = Some t"
          "strictNotEqual v (tr_value t) \<or> trim reason \<noteq> []
             \<or> uuid E w \<notin> th_id ` set (tr_history t)"
    using handleReflectTrackerChange_result(2)[OF c refl refl]
    by (simp add: reflectedTrackers_def comp_def if_distrib cong: if_cong)
  have falsy: "\<not> (truthy j \<and> typeofObject j) \<longrightarrow>
      validateAndMigrateData E j w = Inr (getInitialSessionData E w)"
    by (auto simp: validateAndMigrateData_def)
  show ?thesis
    using init roll adjust falsy
      handleRollDice_bounds[of a E p cmd] handleReflectTrackerChange_bounds[of a E i v reason]
      handleReflect_bounds[of a E row sv sr]
      validated_diceRollHistory_length[of E j w s w']
      validated_tracker_history_lengths[of E j w s w']
    by blast
qed

theorem C4_history_bounds_witness:
  "map_option (\<lambda>s. map dr_id (diceRollHistory s))
     (currentSessionData
        (fst (setDiceRollHistory 0
                (pushRoll \<lparr>dr_id = ''new'', dr_command = ''2d6'',
                           dr_individualRolls = [Finite 3, Finite 4], dr_total = Finite 7,
                           dr_timestamp = ''2024-05-01T10:00:00.000Z''\<rparr>)
                (resetTo rolledSession, 1))))
     = Some (''new'' # replicate 19 ''recent'')
   \<and> map dr_id (diceRollHistory rolledSession) = replicate 19 ''recent'' @ [''oldest'']
   \<and> map_option (\<lambda>s. map (\<lambda>t. map th_id (tr_history t)) (resourceTrackers s))
       (currentSessionData
          (fst (handleReflectTrackerChange exampleEnv ''W'' (Finite 7) [] (resetTo wornSession, 1))))
     = Some [''id-1'' # replicate 49 ''recent'']
   \<and> map th_id (tr_history wornTracker) = replicate 49 ''recent'' @ [''oldest'']
   \<and> list_all withinBounds
       (sessionHistory (fst (handleRollDice exampleEnv (\<lambda>c. Inr (c, [Finite 3, Finite 4], Finite 7))
                               ''2d6'' (resetTo rolledSession, 1))))
   \<and> list_all withinBounds
       (sessionHistory (fst (handleReflectTrackerChange exampleEnv ''W'' (Finite 7) []
                               (resetTo wornSession, 1))))
   \<and> list_all withinBounds
       (sessionHistory (fst (handleReflect exampleEnv wornTracker ''7'' [] (resetTo wornSession, 1))))
   \<and> (\<exists>s w'. validateAndMigrateData exampleEnv
                 (JObj [(''diceRollHistory'', JArr [JObj [], JNum (Finite 1), JObj []])]) 0 = Inr (s, w')
            \<and> length (diceRollHistory s) = 2)
   \<and> validateAndMigrateData exampleEnv (JStr ''garbage'') 0 = Inr (getInitialSessionData exampleEnv 0)
   \<and> withinBounds freshSession"
proof -
  let ?new = "\<lparr>dr_id = ''new'', dr_command = ''2d6'',
               dr_individualRolls = [Finite 3, Finite 4], dr_total = Finite 7,
               dr_timestamp = ''2024-05-01T10:00:00.000Z''\<rparr>"
  let ?p = "\<lambda>c::string. Inr (c, [Finite 3, Finite 4], Finite 7) :: string + (string \<times> number list \<times> number)"
  have fid: "sessionId rolledSession \<noteq> []" "sessionId wornSession \<noteq> []"
    by (simp_all add: rolledSession_def wornSession_def freshSession_id)
  have cr: "currentSessionData (resetTo rolledSession) = Some rolledSession"
    and cw: "currentSessionData (resetTo wornSession) = Some wornSession"
    by (simp_all add: currentSessionData_def resetTo_def nth_opt_def)
  have i0: "currentSessionIndex (resetTo rolledSession) = 0"
    by (simp add: resetTo_def)
  have rolls: "map dr_id (diceRollHistory rolledSession) = replicate 19 ''recent'' @ [''oldest'']"
    by (simp add: rolledSession_def)
  have recs: "map th_id (tr_history wornTracker) = replicate 49 ''recent'' @ [''oldest'']"
    by (simp add: wornTracker_def)
  have found: "find (\<lambda>t. tr_id t = ''W'') (resourceTrackers wornSession) = Some wornTracker"
    by (simp add: wornSession_def wornTracker_def)
  have e: "uuid exampleEnv (Suc 0) = ''id-1''" "parseFloat exampleEnv ''7'' = Finite 7"
    by (simp_all add: exampleEnv_def showNat.simps)
  have cond: "strictNotEqual (Finite 7) (tr_value wornTracker) \<or> trim [] \<noteq> []
      \<or> uuid exampleEnv 1 \<notin> th_id ` set (tr_history wornTracker)"
    by (simp add: strictNotEqual_def wornTracker_def)
  have br: "list_all withinBounds (sessionHistory (fst (resetTo rolledSession, 1::nat)))"
    by (simp add: resetTo_def withinBounds_def rolledSession_def freshSession_def
        getInitialSessionData_fields)
  have bw: "list_all withinBounds (sessionHistory (fst (resetTo wornSession, 1::nat)))"
    by (simp add: resetTo_def withinBounds_def wornSession_def wornTracker_def freshSession_def
        getInitialSessionData_fields)
  note dice = C4_history_bounds[where h="resetTo rolledSession" and cur=rolledSession and r="?new"
      and w=1 and E=exampleEnv and a="(resetTo rolledSession, 1)" and p="?p" and cmd="''2d6''"]
  note track = C4_history_bounds[where h="resetTo wornSession" and cur=wornSession and w=1
      and E=exampleEnv and i="''W''" and t=wornTracker and v="Finite 7" and reason="[]"
      and a="(resetTo wornSession, 1)" and row=wornTracker and sv="''7''" and sr="[]"]
  have dh: "diceRollHistory rolledSession =
      replicate 19 \<lparr>dr_id = ''recent'', dr_command = ''1d6'', dr_individualRolls = [Finite 4],
                     dr_total = Finite 4, dr_timestamp = ''2024-05-01T09:00:00.000Z''\<rparr>
      @ [\<lparr>dr_id = ''oldest'', dr_command = ''1d6'', dr_individualRolls = [Finite 1],
          dr_total = Finite 1, dr_timestamp = ''2024-05-01T08:00:00.000Z''\<rparr>]"
    by (simp add: rolledSession_def)
  from dice cr fid(1) have "currentSessionData
        (fst (setDiceRollHistory 0 (pushRoll ?new) (resetTo rolledSession, 1)))
      = Some (rolledSession\<lparr>diceRollHistory := ?new # take 19 (diceRollHistory rolledSession)\<rparr>)"
    by (simp add: i0)
  then have 1: "map_option (\<lambda>s. map dr_id (diceRollHistory s))
     (currentSessionData (fst (setDiceRollHistory 0 (pushRoll ?new) (resetTo rolledSession, 1))))
     = Some (''new'' # replicate 19 ''recent'')"
    by (simp add: dh)
  from dice br have 2: "list_all withinBounds
       (sessionHistory (fst (handleRollDice exampleEnv ?p ''2d6'' (resetTo rolledSession, 1))))"
    by blast
  have wt: "resourceTrackers wornSession = [wornTracker]" "tr_id wornTracker = ''W''"
    "tr_history wornTracker =
        replicate 49 \<lparr>th_id = ''recent'', th_timestamp = ''2024-05-01T09:00:00.000Z'',
                        th_change = Finite 0, th_previousValue = Finite 5,
                        th_newValue = Finite 5, th_reason = ''check''\<rparr>
        @ [\<lparr>th_id = ''oldest'', th_timestamp = ''2024-05-01T08:00:00.000Z'',
            th_change = Finite 5, th_previousValue = Finite 0,
            th_newValue = Finite 5, th_reason = ''start''\<rparr>]"
    by (simp_all add: wornSession_def wornTracker_def)
  from track cw fid(2) found cond
  have "map_option (\<lambda>s. map tr_history (resourceTrackers s))
          (currentSessionData (fst (handleReflectTrackerChange exampleEnv ''W'' (Finite 7) []
                                      (resetTo wornSession, 1))))
      = Some (map (\<lambda>x. if tr_id x = ''W''
                        then \<lparr>th_id = uuid exampleEnv 1, th_timestamp = clock exampleEnv (1 + 1),
                              th_change = jsMinus (Finite 7) (tr_value wornTracker),
                              th_previousValue = tr_value wornTracker, th_newValue = Finite 7,
                              th_reason = trim []\<rparr> # take 49 (tr_history x)
                        else tr_history x)
                (resourceTrackers wornSession))"
    by blast
  then have 3: "map_option (\<lambda>s. map (\<lambda>t. map th_id (tr_history t)) (resourceTrackers s))
       (currentSessionData
          (fst (handleReflectTrackerChange exampleEnv ''W'' (Finite 7) [] (resetTo wornSession, 1))))
     = Some [''id-1'' # replicate 49 ''recent'']"
    by (cases "currentSessionData
          (fst (handleReflectTrackerChange exampleEnv ''W'' (Finite 7) [] (resetTo wornSession, 1)))")
       (auto simp: e wt)
  from track bw have 4: "list_all withinBounds
       (sessionHistory (fst (handleReflectTrackerChange exampleEnv ''W'' (Finite 7) []
                               (resetTo wornSession, 1))))"
    and 5: "list_all withinBounds
       (sessionHistory (fst (handleReflect exampleEnv wornTracker ''7'' [] (resetTo wornSession, 1))))"
    by blast+
  have g: "validateAndMigrateData exampleEnv (JStr ''garbage'') 0 = Inr (getInitialSessionData exampleEnv 0)"
    using C4_history_bounds[where E=exampleEnv and w=0 and j="JStr ''garbage''"] by simp
  let ?j = "JObj [(''diceRollHistory'', JArr [JObj [], JNum (Finite 1), JObj []])]"
  obtain s w' where v: "validateAndMigrateData exampleEnv ?j 0 = Inr (s, w')"
    by (simp add: validator_simps Let_def)
  have "length (diceRollHistory s) = 2"
    using C4_history_bounds[where E=exampleEnv and w=0 and j="?j" and s=s and w'=w'] v
    by (simp add: objectElements_def isNonNullObject_def)
  with v have 6: "\<exists>s w'. validateAndMigrateData exampleEnv ?j 0 = Inr (s, w')
            \<and> length (diceRollHistory s) = 2"
    by blast
  have 7: "withinBounds freshSession"
    using C4_history_bounds[where E=exampleEnv and w=0] by (simp add: freshSession_def)
  from 1 rolls 3 recs 2 4 5 6 g 7 show ?thesis
    by blast
qed

section \<open>Properties of the round trip through JSON\<close>




















































end
